theory Spec2Isabelle
  imports Main
begin

section \<open>JavaScript values\<close>

text \<open>
  The handlers of \<^verbatim>\<open>server.js\<close> read request bodies that the body parsers have
  turned into JavaScript values, and build the documents and rows they hand to
  the stores from them. A value is one of the JSON shapes, or \<open>undefined\<close>
  (what reading a missing property gives). Numbers are modelled on the integers.
  A request body is the object that the parser made of it, as a list of keys and
  values.
\<close>

datatype jsval =
    Undefined
  | Null
  | Bool bool
  | Num int
  | Str string
  | Arr "jsval list"
  | Obj "(string \<times> jsval) list"

type_synonym body = "(string \<times> jsval) list"

text \<open>Reading a property of a parsed object: a missing key reads as \<open>undefined\<close>.\<close>

definition field :: "body \<Rightarrow> string \<Rightarrow> jsval" where
  "field b k = (case map_of b k of None \<Rightarrow> Undefined | Some v \<Rightarrow> v)"

fun get :: "jsval \<Rightarrow> string \<Rightarrow> jsval" where
  "get (Obj kvs) k = field kvs k"
| "get v k = Undefined"

text \<open>
  ToBoolean: \<open>undefined\<close>, \<open>null\<close>, \<open>false\<close>, \<open>0\<close> and the empty string are
  falsy; every array and every object is truthy, the empty ones included.
\<close>

fun truthy :: "jsval \<Rightarrow> bool" where
  "truthy Undefined = False"
| "truthy Null = False"
| "truthy (Bool b) = b"
| "truthy (Num n) = (n \<noteq> 0)"
| "truthy (Str s) = (s \<noteq> [])"
| "truthy (Arr xs) = True"
| "truthy (Obj kvs) = True"

text \<open>\<^verbatim>\<open>a || b\<close>: the left operand when it is truthy, the right one otherwise.\<close>

definition or_js :: "jsval \<Rightarrow> jsval \<Rightarrow> jsval" where
  "or_js a b = (if truthy a then a else b)"

text \<open>\<^verbatim>\<open>Array.isArray\<close>.\<close>

fun isArray :: "jsval \<Rightarrow> bool" where
  "isArray (Arr xs) = True"
| "isArray v = False"

text \<open>A destructuring default (\<^verbatim>\<open>{ x = d } = obj\<close>) applies to \<open>undefined\<close> only.\<close>

definition default_to :: "jsval \<Rightarrow> jsval \<Rightarrow> jsval" where
  "default_to v d = (if v = Undefined then d else v)"

subsection \<open>ToString and \<^verbatim>\<open>Array.prototype.join\<close>\<close>

text \<open>The character of a decimal digit \<open>k\<close>, for \<open>k\<close> below ten.\<close>

definition digit :: "nat \<Rightarrow> char" where
  "digit k = ''0123456789'' ! k"

fun decimal :: "nat \<Rightarrow> string" where
  "decimal n = (if 10 \<le> n then decimal (n div 10) @ [digit (n mod 10)] else [digit n])"

declare decimal.simps [simp del]

text \<open>Number::toString on the integers: a minus sign before the digits of a negative one.\<close>

definition number_str :: "int \<Rightarrow> string" where
  "number_str i = (if 0 \<le> i then decimal (nat i) else CHR ''-'' # decimal (nat (- i)))"

text \<open>
  \<open>join\<close> turns \<open>undefined\<close> and \<open>null\<close> elements into the empty string and every
  other element into its ToString; ToString of an array is its \<open>join\<close> with a comma.
\<close>

fun to_str :: "jsval \<Rightarrow> string"
  and join :: "string \<Rightarrow> jsval list \<Rightarrow> string"
  and elem_str :: "jsval \<Rightarrow> string" where
  "to_str Undefined = ''undefined''"
| "to_str Null = ''null''"
| "to_str (Bool b) = (if b then ''true'' else ''false'')"
| "to_str (Num n) = number_str n"
| "to_str (Str s) = s"
| "to_str (Arr xs) = join '','' xs"
| "to_str (Obj kvs) = ''[object Object]''"
| "join sep [] = []"
| "join sep [x] = elem_str x"
| "join sep (x # y # ys) = elem_str x @ sep @ join sep (y # ys)"
| "elem_str Undefined = []"
| "elem_str Null = []"
| "elem_str (Bool b) = to_str (Bool b)"
| "elem_str (Num n) = to_str (Num n)"
| "elem_str (Str s) = to_str (Str s)"
| "elem_str (Arr xs) = to_str (Arr xs)"
| "elem_str (Obj kvs) = to_str (Obj kvs)"

subsection \<open>Strings of digits and \<^verbatim>\<open>Number(s)\<close>\<close>

definition is_digit :: "char \<Rightarrow> bool" where
  "is_digit c = (c \<in> set ''0123456789'')"

definition digits_value :: "string \<Rightarrow> nat" where
  "digits_value s = foldl (\<lambda>a c. 10 * a + (of_char c - 48)) 0 s"

text \<open>
  \<^verbatim>\<open>Number(s)\<close> for a string \<open>s\<close>. A string of one to fifteen decimal digits is
  the integer it writes (the number is below the 53rd power of two, so it is exact). What
  the language makes of any other string (white space, signs, fractions,
  exponents, other radixes) is the parameter \<open>rest\<close>, with \<open>None\<close> for \<open>NaN\<close>.
\<close>

definition plain_digits :: "string \<Rightarrow> bool" where
  "plain_digits s = (s \<noteq> [] \<and> length s \<le> 15 \<and> list_all is_digit s)"

definition StringToNumber :: "(string \<Rightarrow> int option) \<Rightarrow> string \<Rightarrow> int option" where
  "StringToNumber rest s = (if plain_digits s then Some (int (digits_value s)) else rest s)"

section \<open>Responses, errors and collections\<close>

record response =
  status :: nat
  json :: jsval

datatype error = TypeError | CastError | ValidationError | StoreError | ProviderError

text \<open>
  A collection of the document database: the documents in insertion order, each
  under its native identifier (\<open>_id\<close>, 24 lower-case hexadecimal digits). A
  document lists the paths that are set, with their values; a date is kept as the
  string that is its JSON form.
\<close>

type_synonym doc = "(string \<times> jsval) list"
type_synonym collection = "(string \<times> doc) list"

section \<open>Dates\<close>

text \<open>
  \<^verbatim>\<open>new Date().toISOString().split('T')[0]\<close> (line 108). The clock is an input:
  \<open>t\<close> is the time value of \<^verbatim>\<open>new Date()\<close>, the milliseconds since 1970-01-01T00:00Z.
  The functions below are the day, year, month and date functions of the
  ECMAScript specification, all in UTC.
\<close>

definition msPerDay :: int where
  "msPerDay = 86400000"

definition Day :: "int \<Rightarrow> int" where
  "Day t = t div msPerDay"

definition DaysInYear :: "int \<Rightarrow> int" where
  "DaysInYear y =
     (if y mod 4 \<noteq> 0 then 365
      else if y mod 100 \<noteq> 0 then 366
      else if y mod 400 \<noteq> 0 then 365
      else 366)"

definition DayFromYear :: "int \<Rightarrow> int" where
  "DayFromYear y =
     365 * (y - 1970) + (y - 1969) div 4 - (y - 1901) div 100 + (y - 1601) div 400"

definition TimeFromYear :: "int \<Rightarrow> int" where
  "TimeFromYear y = msPerDay * DayFromYear y"

text \<open>
  YearFromTime is the largest year whose start is not after \<open>t\<close>. It is found by
  stepping down from a year that is not too small: no year has fewer than 365 days.
\<close>

lemma div_pred_le: "0 < k \<Longrightarrow> (x - 1) div k \<le> (x::int) div k"
  by (simp add: zdiv_mono1)

lemma div_le_pred_Suc:
  assumes "0 < k"
  shows "(x::int) div k \<le> (x - 1) div k + 1"
proof -
  have "x div k \<le> ((x - 1) + k) div k"
    using assms by (intro zdiv_mono1) auto
  also have "\<dots> = (x - 1) div k + 1"
    using assms div_add_self2 [of k "x - 1"] by simp
  finally show ?thesis .
qed

lemma year_step_linear:
  "a' \<le> a \<Longrightarrow> b \<le> b' + 1 \<Longrightarrow> c' \<le> c \<Longrightarrow>
   365 * (y - 1 - 1970) + a' - b' + c' < 365 * (y - 1970) + a - b + (c::int)"
  by arith

lemma DayFromYear_pred_less: "DayFromYear (y - 1) < DayFromYear y"
proof -
  have "(y - 1 - 1969) div 4 \<le> (y - 1969) div 4"
    using div_pred_le [of 4 "y - 1969"] by (simp add: algebra_simps)
  moreover have "(y - 1901) div 100 \<le> (y - 1 - 1901) div 100 + 1"
    using div_le_pred_Suc [of 100 "y - 1901"] by (simp add: algebra_simps)
  moreover have "(y - 1 - 1601) div 400 \<le> (y - 1601) div 400"
    using div_pred_le [of 400 "y - 1601"] by (simp add: algebra_simps)
  ultimately show ?thesis
    unfolding DayFromYear_def by (rule year_step_linear)
qed

function year_down :: "int \<Rightarrow> int \<Rightarrow> int" where
  "year_down t y = (if TimeFromYear y \<le> t then y else year_down t (y - 1))"
  by pat_completeness auto
termination
proof (relation "measure (\<lambda>(t, y). nat (TimeFromYear y - t))")
  show "wf (measure (\<lambda>(t, y). nat (TimeFromYear y - t)))"
    by simp
next
  fix t y :: int
  assume a: "\<not> TimeFromYear y \<le> t"
  have "TimeFromYear (y - 1) < TimeFromYear y"
    using DayFromYear_pred_less [of y] by (simp add: TimeFromYear_def msPerDay_def)
  with a show "((t, y - 1), (t, y)) \<in> measure (\<lambda>(t, y). nat (TimeFromYear y - t))"
    by simp
qed

declare year_down.simps [simp del]

definition YearFromTime :: "int \<Rightarrow> int" where
  "YearFromTime t = year_down t (1970 + max 0 (Day t div 365))"

definition InLeapYear :: "int \<Rightarrow> int" where
  "InLeapYear t = (if DaysInYear (YearFromTime t) = 366 then 1 else 0)"

definition DayWithinYear :: "int \<Rightarrow> int" where
  "DayWithinYear t = Day t - DayFromYear (YearFromTime t)"

definition MonthFromTime :: "int \<Rightarrow> int" where
  "MonthFromTime t =
     (let d = DayWithinYear t; l = InLeapYear t
      in if d < 31 then 0
         else if d < 59 + l then 1
         else if d < 90 + l then 2
         else if d < 120 + l then 3
         else if d < 151 + l then 4
         else if d < 181 + l then 5
         else if d < 212 + l then 6
         else if d < 243 + l then 7
         else if d < 273 + l then 8
         else if d < 304 + l then 9
         else if d < 334 + l then 10
         else 11)"

definition DateFromTime :: "int \<Rightarrow> int" where
  "DateFromTime t =
     (let d = DayWithinYear t; l = InLeapYear t; m = MonthFromTime t
      in if m = 0 then d + 1
         else if m = 1 then d - 30
         else if m = 2 then d - 58 - l
         else if m = 3 then d - 89 - l
         else if m = 4 then d - 119 - l
         else if m = 5 then d - 150 - l
         else if m = 6 then d - 180 - l
         else if m = 7 then d - 211 - l
         else if m = 8 then d - 242 - l
         else if m = 9 then d - 272 - l
         else if m = 10 then d - 303 - l
         else d - 333 - l)"

definition HourFromTime :: "int \<Rightarrow> int" where
  "HourFromTime t = (t div 3600000) mod 24"

definition MinFromTime :: "int \<Rightarrow> int" where
  "MinFromTime t = (t div 60000) mod 60"

definition SecFromTime :: "int \<Rightarrow> int" where
  "SecFromTime t = (t div 1000) mod 60"

definition msFromTime :: "int \<Rightarrow> int" where
  "msFromTime t = t mod 1000"

text \<open>Decimal digits, padded with zeros on the left to a width.\<close>

definition pad :: "nat \<Rightarrow> int \<Rightarrow> string" where
  "pad w i = (let s = decimal (nat i) in replicate (w - length s) CHR ''0'' @ s)"

text \<open>
  \<^verbatim>\<open>toISOString\<close>: \<^verbatim>\<open>YYYY-MM-DDTHH:mm:ss.sssZ\<close>, the year with four digits from 0 to
  9999 and with a sign and six digits outside.
\<close>

definition isoYear :: "int \<Rightarrow> string" where
  "isoYear y =
     (if 0 \<le> y \<and> y \<le> 9999 then pad 4 y
      else if y < 0 then CHR ''-'' # pad 6 (- y)
      else CHR ''+'' # pad 6 y)"

definition toISOString :: "int \<Rightarrow> string" where
  "toISOString t =
     isoYear (YearFromTime t) @ ''-'' @ pad 2 (MonthFromTime t + 1) @ ''-'' @ pad 2 (DateFromTime t)
       @ ''T'' @ pad 2 (HourFromTime t) @ '':'' @ pad 2 (MinFromTime t) @ '':'' @ pad 2 (SecFromTime t)
       @ ''.'' @ pad 3 (msFromTime t) @ ''Z''"

text \<open>\<^verbatim>\<open>s.split(c)\<close> for a one-character separator, and reading element 0 of the result.\<close>

fun split_chr :: "char \<Rightarrow> string \<Rightarrow> string list" where
  "split_chr c [] = [[]]"
| "split_chr c (x # xs) =
     (if x = c then [] # split_chr c xs
      else (case split_chr c xs of [] \<Rightarrow> [[x]] | p # ps \<Rightarrow> (x # p) # ps))"

definition at0 :: "string list \<Rightarrow> jsval" where
  "at0 xs = (case xs of [] \<Rightarrow> Undefined | x # _ \<Rightarrow> Str x)"


section \<open>The schemas and the object-document mapper\<close>

text \<open>
  A schema lists its paths: the name, the declared type, whether the path is
  required, its default (\<open>undefined\<close> for none) and the model it refers to, if any.
  \<open>[String]\<close> is \<open>Strings_t\<close>, a plain \<open>Array\<close> is \<open>Array_t\<close>. A \<open>Number\<close> path carries
  the part of \<^verbatim>\<open>Number(s)\<close> that is a parameter.
\<close>

datatype path_type =
    String_t
  | Number_t "string \<Rightarrow> int option"
  | Strings_t
  | Array_t
  | Date_t

record path =
  path_name :: string
  path_type :: path_type
  required :: bool
  dflt :: jsval
  ref :: "string option"

type_synonym schema = "path list"

definition opt :: "string \<Rightarrow> path_type \<Rightarrow> path" where
  "opt n t = \<lparr>path_name = n, path_type = t, required = False, dflt = Undefined, ref = None\<rparr>"

definition req :: "string \<Rightarrow> path_type \<Rightarrow> path" where
  "req n t = \<lparr>path_name = n, path_type = t, required = True, dflt = Undefined, ref = None\<rparr>"

text \<open>\<open>jobSchema\<close> (lines 36 to 54); the default of \<open>datePosted\<close> is the day of \<open>now\<close>.\<close>

definition jobSchema :: "int \<Rightarrow> schema" where
  "jobSchema now =
     [opt ''jobId'' String_t,
      opt ''positionTitle'' String_t,
      opt ''jobClassification'' String_t,
      opt ''experience'' String_t,
      opt ''education'' String_t,
      opt ''locationZip'' String_t,
      opt ''organizationLevel'' String_t,
      opt ''attitude'' String_t,
      opt ''comments'' String_t,
      opt ''jobDescription'' String_t,
      opt ''certifications'' Strings_t,
      opt ''tools'' Strings_t,
      opt ''attachmentLinks'' Strings_t,
      \<lparr>path_name = ''datePosted'', path_type = String_t, required = False,
       dflt = at0 (split_chr CHR ''T'' (toISOString now)), ref = None\<rparr>]"

text \<open>\<open>candidateSchema\<close> (lines 160 to 176).\<close>

definition candidateSchema :: "(string \<Rightarrow> int option) \<Rightarrow> schema" where
  "candidateSchema rest =
     [opt ''jobId'' String_t,
      opt ''candidateId'' String_t,
      opt ''firstName'' String_t,
      opt ''lastName'' String_t,
      opt ''email'' String_t,
      opt ''phone'' String_t,
      opt ''education'' String_t,
      opt ''experience'' String_t,
      opt ''linkedin'' String_t,
      opt ''address'' String_t,
      opt ''totalScore'' (Number_t rest),
      opt ''skills'' Strings_t,
      opt ''certifications'' Strings_t,
      opt ''tools'' Strings_t,
      opt ''resumeLink'' String_t]"

text \<open>
  \<open>evaluationSchema\<close> (lines 341 to 346); the default of \<open>createdAt\<close> is
  \<^verbatim>\<open>Date.now\<close>, the time value \<open>now\<close>.
\<close>

definition evaluationSchema :: "int \<Rightarrow> schema" where
  "evaluationSchema now =
     [req ''candidateId'' String_t,
      req ''evaluationResults'' Array_t,
      req ''ScoresFactor'' Array_t,
      \<lparr>path_name = ''createdAt'', path_type = Date_t, required = False,
       dflt = Num now, ref = None\<rparr>]"

subsection \<open>Casts\<close>

text \<open>
  The cast to \<open>String\<close>: \<open>null\<close> and \<open>undefined\<close> stay, a string stays, a number
  and a boolean become their \<open>toString\<close>, an object with a non-empty string \<open>_id\<close>
  becomes that \<open>_id\<close>; any other object and every array is a cast error.
\<close>

definition castString :: "jsval \<Rightarrow> error + jsval" where
  "castString v =
     (case v of
        Undefined \<Rightarrow> Inr Undefined
      | Null \<Rightarrow> Inr Null
      | Bool b \<Rightarrow> Inr (Str (to_str (Bool b)))
      | Num n \<Rightarrow> Inr (Str (to_str (Num n)))
      | Str s \<Rightarrow> Inr (Str s)
      | Arr xs \<Rightarrow> Inl CastError
      | Obj kvs \<Rightarrow>
          (case field kvs ''_id'' of
             Str i \<Rightarrow> if i \<noteq> [] then Inr (Str i) else Inl CastError
           | _ \<Rightarrow> Inl CastError))"

text \<open>
  The cast to \<open>Number\<close>: \<open>null\<close> stays and the empty string becomes \<open>null\<close>; any
  other string and a boolean go through \<^verbatim>\<open>Number\<close>, and \<open>NaN\<close> is a cast error; a
  number stays; arrays and objects are cast errors.
\<close>

definition castNumber :: "(string \<Rightarrow> int option) \<Rightarrow> jsval \<Rightarrow> error + jsval" where
  "castNumber rest v =
     (case v of
        Undefined \<Rightarrow> Inr Undefined
      | Null \<Rightarrow> Inr Null
      | Bool b \<Rightarrow> Inr (Num (if b then 1 else 0))
      | Num n \<Rightarrow> Inr (Num n)
      | Str s \<Rightarrow>
          (if s = [] then Inr Null
           else (case StringToNumber rest s of None \<Rightarrow> Inl CastError | Some n \<Rightarrow> Inr (Num n)))
      | Arr xs \<Rightarrow> Inl CastError
      | Obj kvs \<Rightarrow> Inl CastError)"

text \<open>The elements of a \<open>[String]\<close> path are cast one by one; the first error ends it.\<close>

fun castEach :: "jsval list \<Rightarrow> error + jsval list" where
  "castEach [] = Inr []"
| "castEach (x # xs) =
     (case castString x of
        Inl e \<Rightarrow> Inl e
      | Inr y \<Rightarrow> (case castEach xs of Inl e \<Rightarrow> Inl e | Inr ys \<Rightarrow> Inr (y # ys)))"

text \<open>
  The cast to an array: \<open>null\<close> stays, an array stays (its elements are cast when
  the path is \<open>[String]\<close>), and any other value becomes the array of that value.
\<close>

definition castStrings :: "jsval \<Rightarrow> error + jsval" where
  "castStrings v =
     (case v of
        Undefined \<Rightarrow> Inr Undefined
      | Null \<Rightarrow> Inr Null
      | Arr xs \<Rightarrow> (case castEach xs of Inl e \<Rightarrow> Inl e | Inr ys \<Rightarrow> Inr (Arr ys))
      | _ \<Rightarrow> (case castEach [v] of Inl e \<Rightarrow> Inl e | Inr ys \<Rightarrow> Inr (Arr ys)))"

definition castArray :: "jsval \<Rightarrow> error + jsval" where
  "castArray v =
     (case v of
        Undefined \<Rightarrow> Inr Undefined
      | Null \<Rightarrow> Inr Null
      | Arr xs \<Rightarrow> Inr (Arr xs)
      | _ \<Rightarrow> Inr (Arr [v]))"

text \<open>
  The cast to \<open>Date\<close>. No handler gives a value on the one \<open>Date\<close> path, which
  always takes its default; of the values only \<open>null\<close> and a number of
  milliseconds are modelled.
\<close>

definition castDate :: "jsval \<Rightarrow> error + jsval" where
  "castDate v =
     (case v of
        Undefined \<Rightarrow> Inr Undefined
      | Null \<Rightarrow> Inr Null
      | Num n \<Rightarrow> Inr (Str (toISOString n))
      | _ \<Rightarrow> Inl CastError)"

fun cast :: "path_type \<Rightarrow> jsval \<Rightarrow> error + jsval" where
  "cast String_t v = castString v"
| "cast (Number_t rest) v = castNumber rest v"
| "cast Strings_t v = castStrings v"
| "cast Array_t v = castArray v"
| "cast Date_t v = castDate v"

subsection \<open>Documents\<close>

text \<open>
  The value of a path in \<^verbatim>\<open>new Model(given)\<close>: the cast of the given value, and for
  a value that is not given the declared default or, on an array path, the empty
  array.
\<close>

fun is_array_type :: "path_type \<Rightarrow> bool" where
  "is_array_type Strings_t = True"
| "is_array_type Array_t = True"
| "is_array_type t = False"

definition path_value :: "path \<Rightarrow> doc \<Rightarrow> error + jsval" where
  "path_value p given =
     (let v = field given (path_name p)
      in if v \<noteq> Undefined then cast (path_type p) v
         else if dflt p \<noteq> Undefined then cast (path_type p) (dflt p)
         else if is_array_type (path_type p) then Inr (Arr [])
         else Inr Undefined)"

text \<open>
  The \<open>required\<close> validator: a string path needs a non-empty string, an array path
  an array (the empty one passes), any other path a value that is not \<open>null\<close>.
\<close>

definition checkRequired :: "path_type \<Rightarrow> jsval \<Rightarrow> bool" where
  "checkRequired t v =
     (if t = String_t then (case v of Str s \<Rightarrow> s \<noteq> [] | _ \<Rightarrow> False)
      else if is_array_type t then isArray v
      else v \<noteq> Undefined \<and> v \<noteq> Null)"

text \<open>
  The document that \<^verbatim>\<open>new Model(given)\<close> builds and \<open>save\<close> validates: the paths of
  the schema in their order, each with its value; a path whose value is
  \<open>undefined\<close> is not set. A cast error and a failed validator make \<open>save\<close> reject.
\<close>

fun new_doc :: "schema \<Rightarrow> doc \<Rightarrow> error + doc" where
  "new_doc [] given = Inr []"
| "new_doc (p # ps) given =
     (case path_value p given of
        Inl e \<Rightarrow> Inl e
      | Inr v \<Rightarrow>
          if required p \<and> \<not> checkRequired (path_type p) v then Inl ValidationError
          else (case new_doc ps given of
                  Inl e \<Rightarrow> Inl e
                | Inr d \<Rightarrow> Inr (if v = Undefined then d else (path_name p, v) # d)))"

text \<open>
  \<^verbatim>\<open>new Model(given).save()\<close>: the document is built and validated against the
  schema, and written to the collection under the identifier \<open>oid\<close> generated for
  it. \<open>ok\<close> says whether the database carries the write out.
\<close>

definition save :: "schema \<Rightarrow> bool \<Rightarrow> string \<Rightarrow> doc \<Rightarrow> collection \<Rightarrow> error + collection" where
  "save sch ok oid given c =
     (case new_doc sch given of
        Inl e \<Rightarrow> Inl e
      | Inr d \<Rightarrow> if ok then Inr (c @ [(oid, d)]) else Inl StoreError)"

text \<open>
  \<open>findOne\<close> gives the first stored document that has the value under the path.
\<close>

definition findOne :: "string \<Rightarrow> jsval \<Rightarrow> collection \<Rightarrow> (string \<times> doc) option" where
  "findOne p v c = find (\<lambda>(oid, d). field d p = v) c"

definition toJSON :: "string \<times> doc \<Rightarrow> jsval" where
  "toJSON e = Obj ((''_id'', Str (fst e)) # snd e)"



section \<open>Evaluations\<close>

text \<open>
  \<^verbatim>\<open>POST /api/saveEvaluation\<close> (server.js, lines 352 to 368). \<open>now\<close> is the clock
  when the document is built.
\<close>

definition saveEvaluation ::
  "bool \<Rightarrow> int \<Rightarrow> string \<Rightarrow> body \<Rightarrow> collection \<Rightarrow> response \<times> collection" where
  "saveEvaluation ok now oid b evaluations =
     (let candidateId = field b ''candidateId'';
          evaluationResults = field b ''evaluationResults'';
          ScoresFactor = field b ''ScoresFactor''
      in if \<not> truthy candidateId \<or> \<not> truthy evaluationResults
         then (\<lparr>status = 400, json = Obj [(''error'', Str ''Missing required fields'')]\<rparr>,
               evaluations)
         else (case save (evaluationSchema now) ok oid
                      [(''candidateId'', candidateId),
                       (''evaluationResults'', evaluationResults),
                       (''ScoresFactor'', ScoresFactor)] evaluations of
                 Inl e \<Rightarrow>
                   (\<lparr>status = 500, json = Obj [(''error'', Str ''Internal Server Error'')]\<rparr>,
                    evaluations)
               | Inr evaluations' \<Rightarrow>
                   (\<lparr>status = 201, json = Obj [(''message'', Str ''Evaluation saved successfully!'')]\<rparr>,
                    evaluations')))"

text \<open>
  \<^verbatim>\<open>GET /api/getEvaluation/:candidateId\<close> (lines 372 to 376): the first stored
  evaluation of the candidate.
\<close>

definition getEvaluation :: "collection \<Rightarrow> string \<Rightarrow> response" where
  "getEvaluation evaluations candidateId =
     (case findOne ''candidateId'' (Str candidateId) evaluations of
        None \<Rightarrow> \<lparr>status = 404, json = Obj [(''error'', Str ''Evaluation not found'')]\<rparr>
      | Some evaluation \<Rightarrow> \<lparr>status = 200, json = toJSON evaluation\<rparr>)"

section \<open>The blob store\<close>

text \<open>
  \<^verbatim>\<open>drive.files.create\<close> is an external collaborator. It is a parameter of the
  handlers: from the provider's state, the name, the parent folders, the MIME type
  and the bytes of the upload, it gives either an error or the \<open>data\<close> of its
  response, the created file with its \<open>id\<close> and its \<open>webViewLink\<close>, and the
  provider's next state.
\<close>

record multer_file =
  originalname :: string
  mimetype :: string
  buffer :: string

record drive_file =
  file_id :: string
  webViewLink :: string

type_synonym 'd drive_create =
  "'d \<Rightarrow> string \<Rightarrow> string list \<Rightarrow> string \<Rightarrow> string \<Rightarrow> (error + drive_file) \<times> 'd"

definition folderId :: string where
  "folderId = ''16E5IHs55NHydlC7qtNFRFcaI-ujvTV-i''"

section \<open>Jobs\<close>

text \<open>
  The upload loop of \<^verbatim>\<open>POST /api/jobs\<close> (lines 81 to 92): the files are uploaded one
  after the other, each link is pushed at the end of \<open>attachmentLinks\<close>, and the
  first failure leaves the loop.
\<close>

fun upload_files ::
  "'d drive_create \<Rightarrow> 'd \<Rightarrow> multer_file list \<Rightarrow> string list \<Rightarrow> (error + string list) \<times> 'd" where
  "upload_files create d [] attachmentLinks = (Inr attachmentLinks, d)"
| "upload_files create d (f # fs) attachmentLinks =
     (case create d (originalname f) [folderId] (mimetype f) (buffer f) of
        (Inl e, d') \<Rightarrow> (Inl e, d')
      | (Inr data, d') \<Rightarrow>
          upload_files create d' fs (attachmentLinks @ [webViewLink data]))"

text \<open>\<^verbatim>\<open>Array.isArray(x) ? x : [x]\<close>.\<close>

definition as_list :: "jsval \<Rightarrow> jsval" where
  "as_list x = (if isArray x then x else Arr [x])"

text \<open>
  \<^verbatim>\<open>POST /api/jobs\<close> (lines 68 to 118). \<open>files\<close> is \<^verbatim>\<open>req.files\<close>: the list of the
  uploaded attachments of a multipart request, and nothing for any other request,
  where the loop over it throws. \<open>now\<close> is the clock when the document is built.
\<close>

definition createJob ::
  "'d drive_create \<Rightarrow> bool \<Rightarrow> int \<Rightarrow> string \<Rightarrow> body \<Rightarrow> multer_file list option
     \<Rightarrow> 'd \<Rightarrow> collection \<Rightarrow> response \<times> 'd \<times> collection" where
  "createJob create ok now oid b files d jobs =
     (let jobId = field b ''jobId'';
          certifications = default_to (field b ''certifications'') (Arr []);
          tools = default_to (field b ''tools'') (Arr []);
          failed = \<lparr>status = 500, json = Obj [(''error'', Str ''Internal Server Error'')]\<rparr>
      in case files of
           None \<Rightarrow> (failed, d, jobs)
         | Some fs \<Rightarrow>
             (case upload_files create d fs [] of
                (Inl e, d') \<Rightarrow> (failed, d', jobs)
              | (Inr attachmentLinks, d') \<Rightarrow>
                  (case save (jobSchema now) ok oid
                          [(''jobId'', jobId),
                           (''positionTitle'', field b ''positionTitle''),
                           (''jobClassification'', field b ''jobClassification''),
                           (''experience'', field b ''experience''),
                           (''education'', field b ''education''),
                           (''locationZip'', field b ''locationZip''),
                           (''organizationLevel'', field b ''organizationLevel''),
                           (''attitude'', field b ''attitude''),
                           (''comments'', field b ''comments''),
                           (''jobDescription'', field b ''jobDescription''),
                           (''certifications'', as_list certifications),
                           (''tools'', as_list tools),
                           (''attachmentLinks'', Arr (map Str attachmentLinks)),
                           (''datePosted'', at0 (split_chr CHR ''T'' (toISOString now)))]
                          jobs of
                     Inl e \<Rightarrow> (failed, d', jobs)
                   | Inr jobs' \<Rightarrow>
                       (\<lparr>status = 201,
                         json = Obj [(''message'', Str ''Job created successfully''),
                                     (''jobId'', jobId),
                                     (''attachmentLinks'', Arr (map Str attachmentLinks))]\<rparr>,
                        d', jobs'))))"

text \<open>
  \<^verbatim>\<open>GET /api/jobs/:id\<close> (lines 132 to 142). \<open>findById\<close> looks the job up under the
  store's native identifier. The path parameter is first cast to such an
  identifier, which is 24 hexadecimal digits; a string that is not one makes the
  query fail with a cast error, and the handler's \<open>catch\<close> answers it.
\<close>

definition isHexDigit :: "char \<Rightarrow> bool" where
  "isHexDigit c = (c \<in> set ''0123456789abcdefABCDEF'')"

definition lowerHex :: "char \<Rightarrow> char" where
  "lowerHex c = (case map_of (zip ''ABCDEF'' ''abcdef'') c of None \<Rightarrow> c | Some l \<Rightarrow> l)"

definition castObjectId :: "string \<Rightarrow> error + string" where
  "castObjectId s =
     (if length s = 24 \<and> list_all isHexDigit s then Inr (map lowerHex s) else Inl CastError)"

definition findById :: "string \<Rightarrow> collection \<Rightarrow> error + (string \<times> doc) option" where
  "findById ident c =
     (case castObjectId ident of
        Inl e \<Rightarrow> Inl e
      | Inr oid \<Rightarrow> Inr (find (\<lambda>(k, d). k = oid) c))"

definition getJob :: "collection \<Rightarrow> string \<Rightarrow> response" where
  "getJob jobs ident =
     (case findById ident jobs of
        Inl e \<Rightarrow> \<lparr>status = 500, json = Obj [(''error'', Str ''Failed to fetch job details'')]\<rparr>
      | Inr None \<Rightarrow> \<lparr>status = 404, json = Obj [(''error'', Str ''Job not found'')]\<rparr>
      | Inr (Some job) \<Rightarrow> \<lparr>status = 200, json = toJSON job\<rparr>)"

section \<open>Candidates\<close>

text \<open>
  \<^verbatim>\<open>POST /api/candidates\<close> (lines 182 to 239). \<open>resume\<close> is \<^verbatim>\<open>req.file\<close>. The name of
  the upload is the template literal \<^verbatim>\<open>${firstName}_${lastName}_Resume.pdf\<close>.
\<close>

definition createCandidate ::
  "'d drive_create \<Rightarrow> (string \<Rightarrow> int option) \<Rightarrow> bool \<Rightarrow> string \<Rightarrow> body \<Rightarrow> multer_file option
     \<Rightarrow> 'd \<Rightarrow> collection \<Rightarrow> response \<times> 'd \<times> collection" where
  "createCandidate create rest ok oid b resume d candidates =
     (let firstName = field b ''firstName'';
          lastName = field b ''lastName'';
          skills = default_to (field b ''skills'') (Arr []);
          certifications = default_to (field b ''certifications'') (Arr []);
          tools = default_to (field b ''tools'') (Arr []);
          failed = \<lparr>status = 500, json = Obj [(''error'', Str ''Internal Server Error'')]\<rparr>;
          uploaded =
            (case resume of
               None \<Rightarrow> (Inr Null, d)
             | Some f \<Rightarrow>
                 (case create d (to_str firstName @ ''_'' @ to_str lastName @ ''_Resume.pdf'')
                         [folderId] (mimetype f) (buffer f) of
                    (Inl e, d') \<Rightarrow> (Inl e, d')
                  | (Inr data, d') \<Rightarrow> (Inr (Str (webViewLink data)), d')))
      in case uploaded of
           (Inl e, d') \<Rightarrow> (failed, d', candidates)
         | (Inr resumeLink, d') \<Rightarrow>
             (case save (candidateSchema rest) ok oid
                     [(''jobId'', field b ''jobId''),
                      (''candidateId'', field b ''candidateId''),
                      (''firstName'', firstName),
                      (''lastName'', lastName),
                      (''email'', field b ''email''),
                      (''phone'', field b ''phone''),
                      (''education'', field b ''education''),
                      (''experience'', field b ''experience''),
                      (''linkedin'', field b ''linkedin''),
                      (''address'', field b ''address''),
                      (''totalScore'', field b ''totalScore''),
                      (''skills'', as_list skills),
                      (''certifications'', as_list certifications),
                      (''tools'', as_list tools),
                      (''resumeLink'', resumeLink)]
                     candidates of
                Inl e \<Rightarrow> (failed, d', candidates)
              | Inr candidates' \<Rightarrow>
                  (\<lparr>status = 201,
                    json = Obj [(''message'', Str ''Candidate applied successfully!''),
                                (''resumeLink'', resumeLink)]\<rparr>,
                   d', candidates')))"


section \<open>The candidate row of the spreadsheet\<close>

text \<open>
  The spreadsheet provider is an external collaborator too. A spreadsheet maps
  each range of each spreadsheet to its rows; an append that the provider carries
  out (\<open>ok\<close>) puts the given rows after the rows of the range.
\<close>

type_synonym sheets = "string \<times> string \<Rightarrow> jsval list list"

definition values_append ::
  "bool \<Rightarrow> string \<Rightarrow> string \<Rightarrow> jsval list list \<Rightarrow> sheets \<Rightarrow> error + sheets" where
  "values_append ok sid rng values sh =
     (if ok then Inr (sh((sid, rng) := sh (sid, rng) @ values)) else Inl ProviderError)"

definition spreadsheetId :: string where
  "spreadsheetId = ''1Ufx8chsZzW2SKYPc_AHueDwJI9B7G6xbzYhk8lJgF5Y''"

text \<open>
  \<^verbatim>\<open>Array.isArray(x) ? x.join(", ") : x || "Not Specified"\<close> (lines 270 to 272).
\<close>

definition joined_or :: "jsval \<Rightarrow> jsval" where
  "joined_or x =
     (case x of Arr xs \<Rightarrow> Str (join '', '' xs) | _ \<Rightarrow> or_js x (Str ''Not Specified''))"

text \<open>
  The constant \<open>values\<close> of \<^verbatim>\<open>POST /api/candidateToSheet\<close> (lines 258 to 274): a
  list of one row.
\<close>

definition candidate_row :: "body \<Rightarrow> jsval list" where
  "candidate_row b =
     [or_js (field b ''candidateId'') (Str ''Not Specified''),
      or_js (field b ''firstName'') (Str ''Not Specified''),
      or_js (field b ''lastName'') (Str ''Not Specified''),
      or_js (field b ''email'') (Str ''Not Specified''),
      or_js (field b ''phone'') (Str ''Not Specified''),
      or_js (field b ''education'') (Str ''Not Specified''),
      or_js (field b ''experience'') (Str ''Not Specified''),
      or_js (field b ''linkedin'') (Str ''Not Specified''),
      or_js (field b ''address'') (Str ''Not Specified''),
      or_js (field b ''totalScore'') (Str ''0''),
      joined_or (field b ''skills''),
      joined_or (field b ''certifications''),
      joined_or (field b ''tools'')]"

definition candidate_values :: "body \<Rightarrow> jsval list list" where
  "candidate_values b = [candidate_row b]"

text \<open>\<^verbatim>\<open>POST /api/candidateToSheet\<close> (lines 254 to 289).\<close>

definition candidateToSheet :: "bool \<Rightarrow> body \<Rightarrow> sheets \<Rightarrow> response \<times> sheets" where
  "candidateToSheet ok b sh =
     (case values_append ok spreadsheetId ''Sheet1!A1'' (candidate_values b) sh of
        Inr sh' \<Rightarrow>
          (\<lparr>status = 200, json = Obj [(''message'', Str ''Data added to Google Sheet successfully'')]\<rparr>,
           sh')
      | Inl e \<Rightarrow>
          (\<lparr>status = 500,
            json = Obj [(''message'', Str ''Failed to submit the data in the google sheet'')]\<rparr>,
           sh))"

section \<open>Auxiliary definitions of the statements\<close>

text \<open>
  The state of the blob store after the uploads of a list of files, one after the
  other: it says in which state the provider was asked for the link of a file.
\<close>

fun drive_after :: "'d drive_create \<Rightarrow> 'd \<Rightarrow> multer_file list \<Rightarrow> 'd" where
  "drive_after create d [] = d"
| "drive_after create d (f # fs) =
     drive_after create (snd (create d (originalname f) [folderId] (mimetype f) (buffer f))) fs"

text \<open>
  Collaborators for concrete runs: a blob store that is down, a \<^verbatim>\<open>Number(s)\<close>
  that gives \<open>NaN\<close> on every string that is not plain digits, and a database of
  a collection of jobs and a collection of candidates.
\<close>

definition no_drive :: "unit drive_create" where
  "no_drive d n ps m bs = (Inl ProviderError, d)"

definition not_numeric :: "string \<Rightarrow> int option" where
  "not_numeric s = None"


text \<open>
  The paths of a candidate that are declared \<open>String\<close> (\<open>jobId\<close> and \<open>resumeLink\<close>
  apart), and the paths that are declared \<open>[String]\<close>.
\<close>

definition candidate_string_fields :: "string list" where
  "candidate_string_fields =
     [''candidateId'', ''firstName'', ''lastName'', ''email'', ''phone'', ''education'',
      ''experience'', ''linkedin'', ''address'']"

definition list_fields :: "string list" where
  "list_fields = [''skills'', ''certifications'', ''tools'']"

text \<open>
  The calendar, as the specification's words \<open>calendar date\<close> and \<open>YYYY-MM-DD\<close>
  are read: the Gregorian leap years, the lengths of the months, the dates that
  exist, and the number of days from 1 January 1970 to a date, counted year by
  year and month by month.
\<close>

definition leap_year :: "nat \<Rightarrow> bool" where
  "leap_year y = (y mod 4 = 0 \<and> (y mod 100 \<noteq> 0 \<or> y mod 400 = 0))"

definition year_length :: "nat \<Rightarrow> nat" where
  "year_length y = (if leap_year y then 366 else 365)"

definition month_lengths :: "nat \<Rightarrow> nat list" where
  "month_lengths y = [31, if leap_year y then 29 else 28, 31, 30, 31, 30, 31, 31, 30, 31, 30, 31]"

definition calendar_date :: "nat \<Rightarrow> nat \<Rightarrow> nat \<Rightarrow> bool" where
  "calendar_date y m d = (1 \<le> m \<and> m \<le> 12 \<and> 1 \<le> d \<and> d \<le> month_lengths y ! (m - 1))"

definition days_since_epoch :: "nat \<Rightarrow> nat \<Rightarrow> nat \<Rightarrow> nat" where
  "days_since_epoch y m d =
     (\<Sum>k = 1970..<y. year_length k) + sum_list (take (m - 1) (month_lengths y)) + (d - 1)"

text \<open>
  The order of the cells as the specification lists it, to compare the row with.
\<close>

definition spec_columns :: "string list" where
  "spec_columns =
     [''candidateId'', ''firstName'', ''lastName'', ''email'', ''phone'', ''education'',
      ''experience'', ''linkedin'', ''address'', ''totalScore'', ''skills'',
      ''certifications'', ''tools'']"

section \<open>Properties of the documents\<close>

lemma field_Cons: "field ((k, v) # kvs) k' = (if k = k' then v else field kvs k')"
  by (simp add: field_def)

lemma field_absent: "map_of b k = None \<Longrightarrow> field b k = Undefined"
  by (simp add: field_def)

lemma field_Nil: "field [] k = Undefined"
  by (simp add: field_def)

lemma new_doc_other:
  assumes "new_doc sch given = Inr d" and "k \<notin> path_name ` set sch"
  shows "field d k = Undefined"
  using assms
proof (induction sch arbitrary: d)
  case Nil
  then show ?case by (simp add: field_Nil)
next
  case (Cons p ps)
  then show ?case
    by (auto simp: field_Cons split: sum.splits if_splits)
qed

lemma new_doc_path:
  assumes "new_doc sch given = Inr d" and "distinct (map path_name sch)" and "p \<in> set sch"
  shows "\<exists>v. path_value p given = Inr v \<and> field d (path_name p) = v
           \<and> (required p \<longrightarrow> checkRequired (path_type p) v)"
  using assms
proof (induction sch arbitrary: d)
  case Nil
  then show ?case by simp
next
  case (Cons q qs)
  from Cons.prems(1) obtain v d' where
    q: "path_value q given = Inr v" "required q \<longrightarrow> checkRequired (path_type q) v"
    and rest: "new_doc qs given = Inr d'"
    and d: "d = (if v = Undefined then d' else (path_name q, v) # d')"
    by (auto split: sum.splits if_splits)
  show ?case
  proof (cases "p = q")
    case True
    from Cons.prems(2) have "path_name q \<notin> path_name ` set qs"
      by simp
    from new_doc_other [OF rest this] have "field d (path_name q) = v"
      by (simp add: d field_Cons)
    with q True show ?thesis by simp
  next
    case False
    with Cons.prems(3) have p: "p \<in> set qs" by simp
    with Cons.prems(2) have ne: "path_name p \<noteq> path_name q"
      by (metis distinct.simps(2) image_eqI list.simps(9) set_map)
    from Cons.IH [OF rest _ p] Cons.prems(2) obtain w where
      "path_value p given = Inr w" "field d' (path_name p) = w"
      "required p \<longrightarrow> checkRequired (path_type p) w"
      by auto
    with ne show ?thesis
      by (simp add: d field_Cons)
  qed
qed

lemma castEach_strings: "castEach (map Str ss) = Inr (map Str ss)"
  by (induction ss) (simp_all add: castString_def)

lemma castStrings_strings: "castStrings (Arr (map Str ss)) = Inr (Arr (map Str ss))"
  by (simp add: castStrings_def castEach_strings)

lemma split_chr_first_piece: "\<exists>ps. split_chr c s = takeWhile (\<lambda>x. x \<noteq> c) s # ps"
  by (induction s) (auto split: list.splits)

lemma at0_split_chr: "at0 (split_chr c s) = Str (takeWhile (\<lambda>x. x \<noteq> c) s)"
  using split_chr_first_piece [of c s] by (auto simp: at0_def)

section \<open>Properties of the evaluation handlers\<close>

text \<open>
  Claim C4. A \<^verbatim>\<open>POST /api/saveEvaluation\<close> whose body has no \<open>candidateId\<close> or no
  \<open>evaluationResults\<close> is answered with status 400, and the collection of the
  evaluations is left as it was, whatever the database would have done.
\<close>

theorem saveEvaluation_missing_field:
  assumes "map_of b ''candidateId'' = None \<or> map_of b ''evaluationResults'' = None"
  shows "status (fst (saveEvaluation ok now oid b evaluations)) = 400
         \<and> snd (saveEvaluation ok now oid b evaluations) = evaluations"
  using assms by (auto simp: saveEvaluation_def Let_def field_absent)

theorem saveEvaluation_missing_field_witness:
  "(map_of [(''evaluationResults'', Arr [Obj [(''q'', Str ''a'')]])] ''candidateId'' = None
      \<or> map_of [(''evaluationResults'', Arr [Obj [(''q'', Str ''a'')]])] ''evaluationResults'' = None)
   \<and> status (fst (saveEvaluation True 1762176600000 ''65f0c0ffee0123456789abcd''
          [(''evaluationResults'', Arr [Obj [(''q'', Str ''a'')]])] [])) = 400
   \<and> snd (saveEvaluation True 1762176600000 ''65f0c0ffee0123456789abcd''
          [(''evaluationResults'', Arr [Obj [(''q'', Str ''a'')]])] []) = []"
  using saveEvaluation_missing_field
    [of "[(''evaluationResults'', Arr [Obj [(''q'', Str ''a'')]])]" True 1762176600000
        "''65f0c0ffee0123456789abcd''" "[]"]
  by simp

text \<open>
  Claim C9. The check of \<^verbatim>\<open>POST /api/saveEvaluation\<close> is a test of falsiness: the
  answer is 400 exactly when \<open>candidateId\<close> or \<open>evaluationResults\<close> is falsy. So an
  empty string as \<open>candidateId\<close> is answered 400 like a missing one, and an empty
  list as \<open>evaluationResults\<close>, which is truthy, is not answered 400 (the
  \<open>candidateId\<close> being truthy).
\<close>

theorem saveEvaluation_tests_falsiness:
  "(status (fst (saveEvaluation ok now oid b evaluations)) = 400
      \<longleftrightarrow> \<not> truthy (field b ''candidateId'') \<or> \<not> truthy (field b ''evaluationResults''))
   \<and> (field b ''candidateId'' = Str [] \<longrightarrow>
        status (fst (saveEvaluation ok now oid b evaluations)) = 400)
   \<and> (truthy (field b ''candidateId'') \<and> field b ''evaluationResults'' = Arr [] \<longrightarrow>
        status (fst (saveEvaluation ok now oid b evaluations)) \<noteq> 400)"
  by (auto simp: saveEvaluation_def Let_def split: sum.splits)

theorem saveEvaluation_tests_falsiness_witness:
  "field [(''candidateId'', Str []), (''evaluationResults'', Arr [Num 1])] ''candidateId'' = Str []
   \<and> status (fst (saveEvaluation True 1762176600000 ''65f0c0ffee0123456789abcd''
         [(''candidateId'', Str []), (''evaluationResults'', Arr [Num 1])] [])) = 400
   \<and> truthy (field [(''candidateId'', Str ''C1''), (''evaluationResults'', Arr [])] ''candidateId'')
   \<and> field [(''candidateId'', Str ''C1''), (''evaluationResults'', Arr [])] ''evaluationResults'' = Arr []
   \<and> status (fst (saveEvaluation True 1762176600000 ''65f0c0ffee0123456789abcd''
         [(''candidateId'', Str ''C1''), (''evaluationResults'', Arr [])] [])) \<noteq> 400"
  using
    saveEvaluation_tests_falsiness
      [of True 1762176600000 "''65f0c0ffee0123456789abcd''"
          "[(''candidateId'', Str []), (''evaluationResults'', Arr [Num 1])]" "[]"]
    saveEvaluation_tests_falsiness
      [of True 1762176600000 "''65f0c0ffee0123456789abcd''"
          "[(''candidateId'', Str ''C1''), (''evaluationResults'', Arr [])]" "[]"]
  by (simp add: field_def)

lemma castArray_truthy: "truthy v \<Longrightarrow> castArray v = Inr (as_list v)"
  by (cases v) (simp_all add: castArray_def as_list_def)

lemma new_evaluation:
  assumes "c \<noteq> []" and "truthy r"
  shows "new_doc (evaluationSchema now)
           [(''candidateId'', Str c), (''evaluationResults'', r), (''ScoresFactor'', Undefined)] =
         Inr [(''candidateId'', Str c), (''evaluationResults'', as_list r),
              (''ScoresFactor'', Arr []), (''createdAt'', Str (toISOString now))]"
proof -
  have r: "r \<noteq> Undefined" "isArray (as_list r)" "as_list r \<noteq> Undefined"
    using assms(2) by (cases r; simp add: as_list_def)+
  show ?thesis
    using assms(1) r
    by (simp add: evaluationSchema_def req_def path_value_def field_Cons field_Nil Let_def
          castString_def castArray_truthy [OF assms(2)] castDate_def checkRequired_def)
qed

text \<open>
  Claim C3. A \<^verbatim>\<open>POST /api/saveEvaluation\<close> with a non-empty string as
  \<open>candidateId\<close>, a truthy \<open>evaluationResults\<close> (a non-empty list is one) and no
  \<open>ScoresFactor\<close> is never answered 400. The handler checks the first two values
  only; the schema marks \<open>ScoresFactor\<close> as required, and the array path that was
  not given takes the empty array, which passes the validator. So the answer is
  201 and the stored evaluation has the empty list as \<open>ScoresFactor\<close>, unless the
  database fails to carry the write out, which is answered 500.
\<close>

theorem saveEvaluation_without_ScoresFactor:
  assumes "field b ''candidateId'' = Str c" and "c \<noteq> []"
    and "truthy (field b ''evaluationResults'')"
    and "map_of b ''ScoresFactor'' = None"
  shows "status (fst (saveEvaluation ok now oid b evaluations)) \<noteq> 400
    \<and> (ok \<longrightarrow>
        saveEvaluation ok now oid b evaluations =
          (\<lparr>status = 201, json = Obj [(''message'', Str ''Evaluation saved successfully!'')]\<rparr>,
           evaluations @ [(oid, [(''candidateId'', Str c),
                                 (''evaluationResults'', as_list (field b ''evaluationResults'')),
                                 (''ScoresFactor'', Arr []),
                                 (''createdAt'', Str (toISOString now))])]))
    \<and> (\<not> ok \<longrightarrow>
        saveEvaluation ok now oid b evaluations =
          (\<lparr>status = 500, json = Obj [(''error'', Str ''Internal Server Error'')]\<rparr>, evaluations))"
  using assms new_evaluation [OF assms(2,3), of now]
  by (simp add: saveEvaluation_def Let_def save_def field_absent)

theorem saveEvaluation_without_ScoresFactor_witness:
  "field [(''candidateId'', Str ''C1''), (''evaluationResults'', Arr [Obj [(''q'', Str ''a'')]])]
      ''candidateId'' = Str ''C1''
   \<and> ''C1'' \<noteq> []
   \<and> truthy (field [(''candidateId'', Str ''C1''), (''evaluationResults'', Arr [Obj [(''q'', Str ''a'')]])]
            ''evaluationResults'')
   \<and> map_of [(''candidateId'', Str ''C1''), (''evaluationResults'', Arr [Obj [(''q'', Str ''a'')]])]
        ''ScoresFactor'' = None
   \<and> saveEvaluation True 1762176600000 ''65f0c0ffee0123456789abcd''
        [(''candidateId'', Str ''C1''), (''evaluationResults'', Arr [Obj [(''q'', Str ''a'')]])] [] =
        (\<lparr>status = 201, json = Obj [(''message'', Str ''Evaluation saved successfully!'')]\<rparr>,
         [(''65f0c0ffee0123456789abcd'',
           [(''candidateId'', Str ''C1''),
            (''evaluationResults'', Arr [Obj [(''q'', Str ''a'')]]),
            (''ScoresFactor'', Arr []),
            (''createdAt'', Str (toISOString 1762176600000))])])
   \<and> status (fst (saveEvaluation False 1762176600000 ''65f0c0ffee0123456789abcd''
        [(''candidateId'', Str ''C1''), (''evaluationResults'', Arr [Obj [(''q'', Str ''a'')]])] []))
       = 500"
  using
    saveEvaluation_without_ScoresFactor
      [of "[(''candidateId'', Str ''C1''), (''evaluationResults'', Arr [Obj [(''q'', Str ''a'')]])]"
          "''C1''" True 1762176600000 "''65f0c0ffee0123456789abcd''" "[]"]
    saveEvaluation_without_ScoresFactor
      [of "[(''candidateId'', Str ''C1''), (''evaluationResults'', Arr [Obj [(''q'', Str ''a'')]])]"
          "''C1''" False 1762176600000 "''65f0c0ffee0123456789abcd''" "[]"]
  by (simp add: field_def as_list_def)

section \<open>Properties of the job handlers\<close>

lemma getJob_absent_well_formed:
  assumes "castObjectId ident = Inr oid" and "oid \<notin> fst ` set jobs"
  shows "getJob jobs ident = \<lparr>status = 404, json = Obj [(''error'', Str ''Job not found'')]\<rparr>"
proof -
  have "find (\<lambda>(k, d). k = oid) jobs = None"
    using assms(2) by (force simp: find_None_iff)
  with assms(1) show ?thesis
    by (simp add: getJob_def findById_def)
qed

text \<open>
  Claim C5. \<^verbatim>\<open>GET /api/jobs/J-101\<close>: the path parameter identifies no stored job,
  whatever the collection holds, and it is not a native identifier. The lookup
  fails on the cast, and the answer is 500, not 404.
\<close>

theorem getJob_malformed_id:
  "getJob jobs ''J-101'' =
     \<lparr>status = 500, json = Obj [(''error'', Str ''Failed to fetch job details'')]\<rparr>"
  by (simp add: getJob_def findById_def castObjectId_def)

section \<open>Properties of the candidate row\<close>

lemma below_13: "(i::nat) < 13 \<Longrightarrow> i \<in> {0,1,2,3,4,5,6,7,8,9,10,11,12}"
  by (simp add: numeral_eq_Suc less_Suc_eq)

lemma candidate_row_nth:
  assumes "i < 13"
  shows "candidate_row b ! i =
     (if i < 10 then or_js (field b (spec_columns ! i)) (Str (if i = 9 then ''0'' else ''Not Specified''))
      else joined_or (field b (spec_columns ! i)))"
  using below_13 [OF assms]
  by (elim insertE emptyE; simp add: candidate_row_def spec_columns_def)


lemma column_9: "spec_columns ! 9 = ''totalScore''"
  by (simp add: spec_columns_def)

text \<open>
  Claim C10. In the row of \<^verbatim>\<open>POST /api/candidateToSheet\<close> the placeholder stands
  for every falsy value, present or not: a \<open>totalScore\<close> that is the number 0 or
  the empty string gives the cell \<open>"0"\<close>, and any other field that is the empty
  string gives the cell \<open>"Not Specified"\<close>.
\<close>

theorem candidate_row_falsy_values:
  "(\<forall>i<13. \<not> truthy (field b (spec_columns ! i)) \<longrightarrow>
        candidate_row b ! i = (if i = 9 then Str ''0'' else Str ''Not Specified''))
   \<and> (field b ''totalScore'' = Num 0 \<or> field b ''totalScore'' = Str [] \<longrightarrow>
        candidate_row b ! 9 = Str ''0'')
   \<and> (\<forall>i<13. i \<noteq> 9 \<and> field b (spec_columns ! i) = Str [] \<longrightarrow>
        candidate_row b ! i = Str ''Not Specified'')"
proof -
  have gen: "candidate_row b ! i = (if i = 9 then Str ''0'' else Str ''Not Specified'')"
    if "i < 13" "\<not> truthy (field b (spec_columns ! i))" for i
    using that(2)
    by (cases "field b (spec_columns ! i)")
       (auto simp: candidate_row_nth [OF that(1)] or_js_def joined_or_def)
  have score: "candidate_row b ! 9 = Str ''0''"
    if "field b ''totalScore'' = Num 0 \<or> field b ''totalScore'' = Str []"
    using that gen [of 9] by (auto simp: column_9)
  have other: "candidate_row b ! i = Str ''Not Specified''"
    if "i < 13" "i \<noteq> 9" "field b (spec_columns ! i) = Str []" for i
    using that gen [of i] by simp
  from gen score other show ?thesis by blast
qed

theorem candidate_row_falsy_values_witness:
  "field [(''candidateId'', Str []), (''totalScore'', Num 0), (''skills'', Str [])] ''totalScore'' = Num 0
   \<and> candidate_row [(''candidateId'', Str []), (''totalScore'', Num 0), (''skills'', Str [])] ! 9 = Str ''0''
   \<and> field [(''candidateId'', Str []), (''totalScore'', Num 0), (''skills'', Str [])] (spec_columns ! 0) = Str []
   \<and> candidate_row [(''candidateId'', Str []), (''totalScore'', Num 0), (''skills'', Str [])] ! 0
         = Str ''Not Specified''
   \<and> field [(''candidateId'', Str []), (''totalScore'', Num 0), (''skills'', Str [])] (spec_columns ! 10) = Str []
   \<and> candidate_row [(''candidateId'', Str []), (''totalScore'', Num 0), (''skills'', Str [])] ! 10
         = Str ''Not Specified''"
  using candidate_row_falsy_values
    [of "[(''candidateId'', Str []), (''totalScore'', Num 0), (''skills'', Str [])]"]
  by (simp add: spec_columns_def field_def)

text \<open>
  Claim C8. \<^verbatim>\<open>POST /api/candidateToSheet\<close> hands the provider one row of thirteen
  cells, in the order \<open>candidateId\<close>, \<open>firstName\<close>, \<open>lastName\<close>, \<open>email\<close>, \<open>phone\<close>,
  \<open>education\<close>, \<open>experience\<close>, \<open>linkedin\<close>, \<open>address\<close>, \<open>totalScore\<close>, \<open>skills\<close>,
  \<open>certifications\<close>, \<open>tools\<close>; when the provider carries the append out, that row
  and nothing else is added to the target range. The cell of an omitted field is
  \<open>"Not Specified"\<close>, and \<open>"0"\<close> for \<open>totalScore\<close>; the cell of a truthy scalar is
  the value itself; the cell of a list in one of the last three fields is its
  elements joined with a comma and a space.
\<close>

theorem candidateToSheet_row:
  "length (candidate_row b) = 13
   \<and> (ok \<longrightarrow> candidateToSheet ok b sh =
         (\<lparr>status = 200, json = Obj [(''message'', Str ''Data added to Google Sheet successfully'')]\<rparr>,
          sh((spreadsheetId, ''Sheet1!A1'') := sh (spreadsheetId, ''Sheet1!A1'') @ [candidate_row b])))
   \<and> (\<forall>i<13. map_of b (spec_columns ! i) = None \<longrightarrow>
         candidate_row b ! i = (if i = 9 then Str ''0'' else Str ''Not Specified''))
   \<and> (\<forall>i<10. truthy (field b (spec_columns ! i)) \<longrightarrow>
         candidate_row b ! i = field b (spec_columns ! i))
   \<and> (\<forall>i<13. 10 \<le> i \<longrightarrow> (\<forall>xs. field b (spec_columns ! i) = Arr xs \<longrightarrow>
         candidate_row b ! i = Str (join '', '' xs)))"
proof -
  have len: "length (candidate_row b) = 13"
    by (simp add: candidate_row_def)
  have app: "candidateToSheet ok b sh =
         (\<lparr>status = 200, json = Obj [(''message'', Str ''Data added to Google Sheet successfully'')]\<rparr>,
          sh((spreadsheetId, ''Sheet1!A1'') := sh (spreadsheetId, ''Sheet1!A1'') @ [candidate_row b]))"
    if ok
    using that by (simp add: candidateToSheet_def values_append_def candidate_values_def)
  have omitted: "candidate_row b ! i = (if i = 9 then Str ''0'' else Str ''Not Specified'')"
    if "i < 13" "map_of b (spec_columns ! i) = None" for i
    using field_absent [OF that(2)]
    by (auto simp: candidate_row_nth [OF that(1)] or_js_def joined_or_def)
  have present: "candidate_row b ! i = field b (spec_columns ! i)"
    if "i < 10" "truthy (field b (spec_columns ! i))" for i
    using that by (simp add: candidate_row_nth or_js_def)
  have lists: "candidate_row b ! i = Str (join '', '' xs)"
    if "i < 13" "10 \<le> i" "field b (spec_columns ! i) = Arr xs" for i xs
    using that by (simp add: candidate_row_nth joined_or_def)
  from len app omitted present lists show ?thesis by blast
qed

theorem candidateToSheet_row_witness:
  "map_of [(''candidateId'', Str ''C1''), (''firstName'', Str ''Ann''),
           (''skills'', Arr [Str ''sql'', Str ''go''])] (spec_columns ! 9) = None
   \<and> truthy (field [(''candidateId'', Str ''C1''), (''firstName'', Str ''Ann''),
                    (''skills'', Arr [Str ''sql'', Str ''go''])] (spec_columns ! 1))
   \<and> field [(''candidateId'', Str ''C1''), (''firstName'', Str ''Ann''),
            (''skills'', Arr [Str ''sql'', Str ''go''])] (spec_columns ! 10) = Arr [Str ''sql'', Str ''go'']
   \<and> candidate_row [(''candidateId'', Str ''C1''), (''firstName'', Str ''Ann''),
                     (''skills'', Arr [Str ''sql'', Str ''go''])] =
       [Str ''C1'', Str ''Ann'', Str ''Not Specified'', Str ''Not Specified'', Str ''Not Specified'',
        Str ''Not Specified'', Str ''Not Specified'', Str ''Not Specified'', Str ''Not Specified'',
        Str ''0'', Str ''sql, go'', Str ''Not Specified'', Str ''Not Specified'']
   \<and> snd (candidateToSheet True
              [(''candidateId'', Str ''C1''), (''firstName'', Str ''Ann''),
               (''skills'', Arr [Str ''sql'', Str ''go''])] (\<lambda>k. []))
         (spreadsheetId, ''Sheet1!A1'') =
       [candidate_row [(''candidateId'', Str ''C1''), (''firstName'', Str ''Ann''),
                       (''skills'', Arr [Str ''sql'', Str ''go''])]]"
  using candidateToSheet_row
    [of "[(''candidateId'', Str ''C1''), (''firstName'', Str ''Ann''),
          (''skills'', Arr [Str ''sql'', Str ''go''])]" True "\<lambda>k. []"]
  by (simp add: spec_columns_def candidate_row_def field_def or_js_def joined_or_def)

section \<open>Properties of job and candidate creation\<close>

lemma upload_files_links:
  assumes "upload_files create d fs acc = (Inr links, d')"
  shows "\<exists>new. links = acc @ new \<and> length new = length fs \<and> d' = drive_after create d fs
     \<and> (\<forall>i<length fs. \<exists>data.
           fst (create (drive_after create d (take i fs)) (originalname (fs ! i)) [folderId]
                  (mimetype (fs ! i)) (buffer (fs ! i))) = Inr data
           \<and> new ! i = webViewLink data)"
  using assms
proof (induction fs arbitrary: d acc)
  case Nil
  then show ?case by simp
next
  case (Cons f fs)
  obtain res d1 where c: "create d (originalname f) [folderId] (mimetype f) (buffer f) = (res, d1)"
    by (cases "create d (originalname f) [folderId] (mimetype f) (buffer f)")
  from Cons.prems c obtain data where res: "res = Inr data"
    by (cases res) auto
  with Cons.prems c have rest: "upload_files create d1 fs (acc @ [webViewLink data]) = (Inr links, d')"
    by simp
  from Cons.IH [OF rest] obtain new where new:
    "links = (acc @ [webViewLink data]) @ new" "length new = length fs"
    "d' = drive_after create d1 fs"
    "\<forall>i<length fs. \<exists>data.
        fst (create (drive_after create d1 (take i fs)) (originalname (fs ! i)) [folderId]
               (mimetype (fs ! i)) (buffer (fs ! i))) = Inr data
        \<and> new ! i = webViewLink data"
    by blast
  let ?new = "webViewLink data # new"
  have "links = acc @ ?new" using new(1) by simp
  moreover have "length ?new = length (f # fs)" using new(2) by simp
  moreover have "d' = drive_after create d (f # fs)" using new(3) c by simp
  moreover have "\<exists>data'.
        fst (create (drive_after create d (take i (f # fs))) (originalname ((f # fs) ! i)) [folderId]
               (mimetype ((f # fs) ! i)) (buffer ((f # fs) ! i))) = Inr data'
        \<and> ?new ! i = webViewLink data'" if "i < length (f # fs)" for i
  proof (cases i)
    case 0
    then show ?thesis using c res by simp
  next
    case (Suc j)
    with that have "j < length fs" by simp
    with new(4) Suc c show ?thesis by simp
  qed
  ultimately show ?case by blast
qed

lemma jobSchema_distinct: "distinct (map path_name (jobSchema now))"
  by (simp add: jobSchema_def opt_def)

lemma as_list_not_undefined: "as_list x \<noteq> Undefined"
  by (cases x) (simp_all add: as_list_def)

lemma createJob_created:
  assumes "status (fst (createJob create ok now oid b files d jobs)) = 201"
  shows "\<exists>fs links d' job.
           files = Some fs
         \<and> upload_files create d fs [] = (Inr links, d')
         \<and> createJob create ok now oid b files d jobs =
             (\<lparr>status = 201,
               json = Obj [(''message'', Str ''Job created successfully''),
                           (''jobId'', field b ''jobId''),
                           (''attachmentLinks'', Arr (map Str links))]\<rparr>,
              d', jobs @ [(oid, job)])
         \<and> ok
         \<and> castStrings (as_list (default_to (field b ''certifications'') (Arr [])))
               = Inr (field job ''certifications'')
         \<and> castStrings (as_list (default_to (field b ''tools'') (Arr [])))
               = Inr (field job ''tools'')
         \<and> field job ''attachmentLinks'' = Arr (map Str links)
         \<and> field job ''datePosted'' = at0 (split_chr CHR ''T'' (toISOString now))"
proof (cases files)
  case None
  with assms show ?thesis
    by (simp add: createJob_def Let_def)
next
  case (Some fs)
  obtain res d' where up: "upload_files create d fs [] = (res, d')"
    by (cases "upload_files create d fs []")
  show ?thesis
  proof (cases res)
    case (Inl e)
    with assms Some up show ?thesis
      by (simp add: createJob_def Let_def)
  next
    case (Inr links)
    define given where "given =
       [(''jobId'', field b ''jobId''),
        (''positionTitle'', field b ''positionTitle''),
        (''jobClassification'', field b ''jobClassification''),
        (''experience'', field b ''experience''),
        (''education'', field b ''education''),
        (''locationZip'', field b ''locationZip''),
        (''organizationLevel'', field b ''organizationLevel''),
        (''attitude'', field b ''attitude''),
        (''comments'', field b ''comments''),
        (''jobDescription'', field b ''jobDescription''),
        (''certifications'', as_list (default_to (field b ''certifications'') (Arr []))),
        (''tools'', as_list (default_to (field b ''tools'') (Arr []))),
        (''attachmentLinks'', Arr (map Str links)),
        (''datePosted'', at0 (split_chr CHR ''T'' (toISOString now)))]"
    from assms Some up Inr obtain job where
      job: "new_doc (jobSchema now) given = Inr job" and ok: ok
      and res: "createJob create ok now oid b files d jobs =
             (\<lparr>status = 201,
               json = Obj [(''message'', Str ''Job created successfully''),
                           (''jobId'', field b ''jobId''),
                           (''attachmentLinks'', Arr (map Str links))]\<rparr>,
              d', jobs @ [(oid, job)])"
      by (auto simp: createJob_def Let_def save_def given_def split: sum.splits if_splits)
    note path = new_doc_path [OF job jobSchema_distinct]
    have g: "field given ''certifications'' = as_list (default_to (field b ''certifications'') (Arr []))"
      "field given ''tools'' = as_list (default_to (field b ''tools'') (Arr []))"
      "field given ''attachmentLinks'' = Arr (map Str links)"
      "field given ''datePosted'' = at0 (split_chr CHR ''T'' (toISOString now))"
      by (simp_all add: given_def field_Cons)
    have "castStrings (as_list (default_to (field b ''certifications'') (Arr [])))
               = Inr (field job ''certifications'')"
      using path [of "opt ''certifications'' Strings_t"]
      by (auto simp: jobSchema_def opt_def path_value_def Let_def g as_list_not_undefined)
    moreover have "castStrings (as_list (default_to (field b ''tools'') (Arr [])))
               = Inr (field job ''tools'')"
      using path [of "opt ''tools'' Strings_t"]
      by (auto simp: jobSchema_def opt_def path_value_def Let_def g as_list_not_undefined)
    moreover have "field job ''attachmentLinks'' = Arr (map Str links)"
      using path [of "opt ''attachmentLinks'' Strings_t"]
      by (auto simp: jobSchema_def opt_def path_value_def Let_def g castStrings_strings)
    moreover have "field job ''datePosted'' = at0 (split_chr CHR ''T'' (toISOString now))"
      using path [of "\<lparr>path_name = ''datePosted'', path_type = String_t, required = False,
          dflt = at0 (split_chr CHR ''T'' (toISOString now)), ref = None\<rparr>"]
      by (auto simp: jobSchema_def path_value_def Let_def g at0_split_chr castString_def)
    ultimately show ?thesis
      using Some up Inr res ok by simp
  qed
qed

text \<open>
  Claim C1. When \<^verbatim>\<open>POST /api/jobs\<close> with the attachment files \<open>fs\<close> is answered 201,
  the \<open>attachmentLinks\<close> of the stored job and of the response are the same list,
  it has as many entries as there are files, and its entry \<open>i\<close> is the
  \<open>webViewLink\<close> that the blob store gave for file \<open>i\<close>, uploaded under its
  original name into the fixed folder after the files before it.
\<close>

theorem createJob_attachmentLinks:
  assumes "status (fst (createJob create ok now oid b (Some fs) d jobs)) = 201"
  shows "\<exists>links job.
           length links = length fs
         \<and> snd (snd (createJob create ok now oid b (Some fs) d jobs)) = jobs @ [(oid, job)]
         \<and> field job ''attachmentLinks'' = Arr (map Str links)
         \<and> get (json (fst (createJob create ok now oid b (Some fs) d jobs))) ''attachmentLinks''
              = Arr (map Str links)
         \<and> (\<forall>i<length fs. \<exists>data.
               fst (create (drive_after create d (take i fs)) (originalname (fs ! i)) [folderId]
                      (mimetype (fs ! i)) (buffer (fs ! i))) = Inr data
               \<and> links ! i = webViewLink data)"
proof -
  from createJob_created [OF assms] obtain links d' job where
    up: "upload_files create d fs [] = (Inr links, d')"
    and res: "createJob create ok now oid b (Some fs) d jobs =
             (\<lparr>status = 201,
               json = Obj [(''message'', Str ''Job created successfully''),
                           (''jobId'', field b ''jobId''),
                           (''attachmentLinks'', Arr (map Str links))]\<rparr>,
              d', jobs @ [(oid, job)])"
    and att: "field job ''attachmentLinks'' = Arr (map Str links)"
    by auto
  from upload_files_links [OF up] have
    len: "length links = length fs"
    and each: "\<forall>i<length fs. \<exists>data.
               fst (create (drive_after create d (take i fs)) (originalname (fs ! i)) [folderId]
                      (mimetype (fs ! i)) (buffer (fs ! i))) = Inr data
               \<and> links ! i = webViewLink data"
    by auto
  have "get (json (fst (createJob create ok now oid b (Some fs) d jobs))) ''attachmentLinks''
          = Arr (map Str links)"
    by (simp add: res field_Cons)
  with len each att res show ?thesis
    by auto
qed

theorem createJob_attachmentLinks_witness:
  "status (fst (createJob
      (\<lambda>d n ps m bs. (Inr \<lparr>file_id = decimal d, webViewLink = ''https://drive/'' @ n\<rparr>, Suc d))
      True 1762176600000 ''65f0c0ffee0123456789abcd'' [(''jobId'', Str ''J1'')]
      (Some [\<lparr>originalname = ''jd.pdf'', mimetype = ''application/pdf'', buffer = ''%PDF''\<rparr>,
             \<lparr>originalname = ''org.png'', mimetype = ''image/png'', buffer = ''PNG''\<rparr>])
      0 [])) = 201
   \<and> get (json (fst (createJob
      (\<lambda>d n ps m bs. (Inr \<lparr>file_id = decimal d, webViewLink = ''https://drive/'' @ n\<rparr>, Suc d))
      True 1762176600000 ''65f0c0ffee0123456789abcd'' [(''jobId'', Str ''J1'')]
      (Some [\<lparr>originalname = ''jd.pdf'', mimetype = ''application/pdf'', buffer = ''%PDF''\<rparr>,
             \<lparr>originalname = ''org.png'', mimetype = ''image/png'', buffer = ''PNG''\<rparr>])
      0 []))) ''attachmentLinks'' = Arr [Str ''https://drive/jd.pdf'', Str ''https://drive/org.png'']
   \<and> (\<exists>job. snd (snd (createJob
      (\<lambda>d n ps m bs. (Inr \<lparr>file_id = decimal d, webViewLink = ''https://drive/'' @ n\<rparr>, Suc d))
      True 1762176600000 ''65f0c0ffee0123456789abcd'' [(''jobId'', Str ''J1'')]
      (Some [\<lparr>originalname = ''jd.pdf'', mimetype = ''application/pdf'', buffer = ''%PDF''\<rparr>,
             \<lparr>originalname = ''org.png'', mimetype = ''image/png'', buffer = ''PNG''\<rparr>])
      0 [])) = [(''65f0c0ffee0123456789abcd'', job)]
      \<and> field job ''attachmentLinks'' = Arr [Str ''https://drive/jd.pdf'', Str ''https://drive/org.png''])"
  using createJob_attachmentLinks
    [of "\<lambda>d n ps m bs. (Inr \<lparr>file_id = decimal d, webViewLink = ''https://drive/'' @ n\<rparr>, Suc d)"
        True 1762176600000 "''65f0c0ffee0123456789abcd''" "[(''jobId'', Str ''J1'')]"
        "[\<lparr>originalname = ''jd.pdf'', mimetype = ''application/pdf'', buffer = ''%PDF''\<rparr>,
          \<lparr>originalname = ''org.png'', mimetype = ''image/png'', buffer = ''PNG''\<rparr>]"
        0 "[]"]
  by (simp add: createJob_def Let_def save_def field_Cons field_Nil jobSchema_def opt_def
        path_value_def default_to_def as_list_def castString_def castStrings_def at0_split_chr)

lemma opt_sel:
  "path_name (opt n t) = n" "path_type (opt n t) = t" "required (opt n t) = False"
  "dflt (opt n t) = Undefined" "ref (opt n t) = None"
  by (simp_all add: opt_def)

lemma candidateSchema_distinct: "distinct (map path_name (candidateSchema rest))"
  by (simp add: candidateSchema_def opt_def)

lemma path_value_string:
  "path_value (opt k String_t) given = castString (field given k)"
  by (simp add: path_value_def opt_def Let_def castString_def)

lemma path_value_number:
  "path_value (opt k (Number_t rest)) given = castNumber rest (field given k)"
  by (simp add: path_value_def opt_def Let_def castNumber_def)

lemma path_value_strings:
  "field given k \<noteq> Undefined \<Longrightarrow>
   path_value (opt k Strings_t) given = castStrings (field given k)"
  by (simp add: path_value_def opt_def Let_def)

lemma createCandidate_created:
  assumes "status (fst (createCandidate create rest ok oid b resume d candidates)) = 201"
  shows "\<exists>d' resumeLink c.
           createCandidate create rest ok oid b resume d candidates =
             (\<lparr>status = 201,
               json = Obj [(''message'', Str ''Candidate applied successfully!''),
                           (''resumeLink'', resumeLink)]\<rparr>,
              d', candidates @ [(oid, c)])
         \<and> ok
         \<and> castString (field b ''jobId'') = Inr (field c ''jobId'')
         \<and> (\<forall>k\<in>set candidate_string_fields. castString (field b k) = Inr (field c k))
         \<and> castNumber rest (field b ''totalScore'') = Inr (field c ''totalScore'')
         \<and> (\<forall>k\<in>set list_fields.
               castStrings (as_list (default_to (field b k) (Arr []))) = Inr (field c k))
         \<and> field c ''resumeLink'' = resumeLink"
proof -
  define up where "up =
     (case resume of
        None \<Rightarrow> (Inr Null, d)
      | Some f \<Rightarrow>
          (case create d (to_str (field b ''firstName'') @ ''_'' @ to_str (field b ''lastName'') @ ''_Resume.pdf'')
                  [folderId] (mimetype f) (buffer f) of
             (Inl e, d') \<Rightarrow> (Inl e, d')
           | (Inr data, d') \<Rightarrow> (Inr (Str (webViewLink data)), d')))"
  obtain res d' where up_eq: "up = (res, d')"
    by (cases up)
  show ?thesis
  proof (cases res)
    case (Inl e)
    with assms up_eq show ?thesis
      by (simp add: createCandidate_def Let_def up_def [symmetric])
  next
    case (Inr resumeLink)
    have link: "resumeLink = Null \<or> (\<exists>l. resumeLink = Str l)"
      using up_eq Inr by (auto simp: up_def split: option.splits prod.splits sum.splits)
    define given where "given =
       [(''jobId'', field b ''jobId''),
        (''candidateId'', field b ''candidateId''),
        (''firstName'', field b ''firstName''),
        (''lastName'', field b ''lastName''),
        (''email'', field b ''email''),
        (''phone'', field b ''phone''),
        (''education'', field b ''education''),
        (''experience'', field b ''experience''),
        (''linkedin'', field b ''linkedin''),
        (''address'', field b ''address''),
        (''totalScore'', field b ''totalScore''),
        (''skills'', as_list (default_to (field b ''skills'') (Arr []))),
        (''certifications'', as_list (default_to (field b ''certifications'') (Arr []))),
        (''tools'', as_list (default_to (field b ''tools'') (Arr []))),
        (''resumeLink'', resumeLink)]"
    from assms up_eq Inr obtain c where
      c: "new_doc (candidateSchema rest) given = Inr c" and ok: ok
      and res: "createCandidate create rest ok oid b resume d candidates =
             (\<lparr>status = 201,
               json = Obj [(''message'', Str ''Candidate applied successfully!''),
                           (''resumeLink'', resumeLink)]\<rparr>,
              d', candidates @ [(oid, c)])"
      by (auto simp: createCandidate_def Let_def up_def [symmetric] save_def given_def
            split: sum.splits if_splits)
    note path = new_doc_path [OF c candidateSchema_distinct]
    have g: "field given ''jobId'' = field b ''jobId''"
      "\<forall>k\<in>set candidate_string_fields. field given k = field b k"
      "field given ''totalScore'' = field b ''totalScore''"
      "\<forall>k\<in>set list_fields. field given k = as_list (default_to (field b k) (Arr []))"
      "field given ''resumeLink'' = resumeLink"
      by (simp_all add: given_def field_Cons candidate_string_fields_def list_fields_def)
    have "castString (field b ''jobId'') = Inr (field c ''jobId'')"
      using path [of "opt ''jobId'' String_t"]
      by (auto simp: path_value_string g(1) candidateSchema_def opt_sel)
    moreover have "castString (field b k) = Inr (field c k)"
      if "k \<in> set candidate_string_fields" for k
    proof -
      from that have "opt k String_t \<in> set (candidateSchema rest)"
        by (auto simp: candidate_string_fields_def candidateSchema_def)
      from path [OF this] that g(2) show ?thesis
        by (auto simp: path_value_string opt_sel)
    qed
    moreover have "castNumber rest (field b ''totalScore'') = Inr (field c ''totalScore'')"
      using path [of "opt ''totalScore'' (Number_t rest)"]
      by (auto simp: path_value_number g(3) candidateSchema_def opt_sel)
    moreover have "castStrings (as_list (default_to (field b k) (Arr []))) = Inr (field c k)"
      if "k \<in> set list_fields" for k
    proof -
      from that have "opt k Strings_t \<in> set (candidateSchema rest)"
        by (auto simp: list_fields_def candidateSchema_def)
      from path [OF this] that g(4) show ?thesis
        by (auto simp: path_value_strings as_list_not_undefined opt_sel)
    qed
    moreover have "field c ''resumeLink'' = resumeLink"
      using path [of "opt ''resumeLink'' String_t"] link
      by (auto simp: path_value_string g(5) candidateSchema_def castString_def opt_sel)
    ultimately show ?thesis
      using res ok by blast
  qed
qed

lemma stored_list:
  assumes "castStrings (as_list (default_to v (Arr []))) = Inr w"
  shows "(v = Undefined \<longrightarrow> w = Arr [])
       \<and> (\<forall>ss. v = Arr (map Str ss) \<longrightarrow> w = Arr (map Str ss))
       \<and> (\<forall>s. v = Str s \<longrightarrow> w = Arr [Str s])"
  using assms
  by (auto simp: default_to_def as_list_def castStrings_def castEach_strings castString_def)

lemmas run_simps =
  createJob_def createCandidate_def Let_def save_def field_Cons field_Nil jobSchema_def
  candidateSchema_def opt_def path_value_def default_to_def as_list_def castString_def
  castStrings_def castNumber_def at0_split_chr checkRequired_def

text \<open>
  Claim C2, amended. The paths are declared \<open>[String]\<close>, so what is stored is the
  cast of the handler's list. In a job that \<^verbatim>\<open>POST /api/jobs\<close> stored,
  \<open>certifications\<close> and \<open>tools\<close>, and in a candidate that \<^verbatim>\<open>POST /api/candidates\<close>
  stored, \<open>skills\<close>, \<open>certifications\<close> and \<open>tools\<close>, are the empty list when the
  field was omitted, the submitted list when a list of strings was submitted, and
  the one-element list of the submitted value when it was a string.
\<close>

theorem list_fields_as_lists:
  "(status (fst (createJob create ok now oid b files d jobs)) = 201 \<longrightarrow>
      (\<exists>job. snd (snd (createJob create ok now oid b files d jobs)) = jobs @ [(oid, job)]
         \<and> (\<forall>k\<in>{''certifications'', ''tools''}.
               castStrings (as_list (default_to (field b k) (Arr []))) = Inr (field job k)
             \<and> (map_of b k = None \<longrightarrow> field job k = Arr [])
             \<and> (\<forall>ss. field b k = Arr (map Str ss) \<longrightarrow> field job k = Arr (map Str ss))
             \<and> (\<forall>s. field b k = Str s \<longrightarrow> field job k = Arr [Str s]))))
   \<and> (status (fst (createCandidate create rest ok oid b resume d candidates)) = 201 \<longrightarrow>
      (\<exists>c. snd (snd (createCandidate create rest ok oid b resume d candidates)) = candidates @ [(oid, c)]
         \<and> (\<forall>k\<in>{''skills'', ''certifications'', ''tools''}.
               castStrings (as_list (default_to (field b k) (Arr []))) = Inr (field c k)
             \<and> (map_of b k = None \<longrightarrow> field c k = Arr [])
             \<and> (\<forall>ss. field b k = Arr (map Str ss) \<longrightarrow> field c k = Arr (map Str ss))
             \<and> (\<forall>s. field b k = Str s \<longrightarrow> field c k = Arr [Str s]))))"
proof (intro conjI impI)
  assume "status (fst (createJob create ok now oid b files d jobs)) = 201"
  from createJob_created [OF this] obtain job where
    job: "snd (snd (createJob create ok now oid b files d jobs)) = jobs @ [(oid, job)]"
    and "castStrings (as_list (default_to (field b ''certifications'') (Arr [])))
               = Inr (field job ''certifications'')"
    and "castStrings (as_list (default_to (field b ''tools'') (Arr [])))
               = Inr (field job ''tools'')"
    by auto
  then have "\<forall>k\<in>{''certifications'', ''tools''}.
      castStrings (as_list (default_to (field b k) (Arr []))) = Inr (field job k)"
    by simp
  then have "\<forall>k\<in>{''certifications'', ''tools''}.
               castStrings (as_list (default_to (field b k) (Arr []))) = Inr (field job k)
             \<and> (map_of b k = None \<longrightarrow> field job k = Arr [])
             \<and> (\<forall>ss. field b k = Arr (map Str ss) \<longrightarrow> field job k = Arr (map Str ss))
             \<and> (\<forall>s. field b k = Str s \<longrightarrow> field job k = Arr [Str s])"
    using stored_list field_absent by blast
  with job show "\<exists>job. snd (snd (createJob create ok now oid b files d jobs)) = jobs @ [(oid, job)]
         \<and> (\<forall>k\<in>{''certifications'', ''tools''}.
               castStrings (as_list (default_to (field b k) (Arr []))) = Inr (field job k)
             \<and> (map_of b k = None \<longrightarrow> field job k = Arr [])
             \<and> (\<forall>ss. field b k = Arr (map Str ss) \<longrightarrow> field job k = Arr (map Str ss))
             \<and> (\<forall>s. field b k = Str s \<longrightarrow> field job k = Arr [Str s]))"
    by blast
next
  assume "status (fst (createCandidate create rest ok oid b resume d candidates)) = 201"
  from createCandidate_created [OF this] obtain c where
    c: "snd (snd (createCandidate create rest ok oid b resume d candidates)) = candidates @ [(oid, c)]"
    and "\<forall>k\<in>set list_fields.
               castStrings (as_list (default_to (field b k) (Arr []))) = Inr (field c k)"
    by auto
  then have "\<forall>k\<in>{''skills'', ''certifications'', ''tools''}.
      castStrings (as_list (default_to (field b k) (Arr []))) = Inr (field c k)"
    by (simp add: list_fields_def)
  then have "\<forall>k\<in>{''skills'', ''certifications'', ''tools''}.
               castStrings (as_list (default_to (field b k) (Arr []))) = Inr (field c k)
             \<and> (map_of b k = None \<longrightarrow> field c k = Arr [])
             \<and> (\<forall>ss. field b k = Arr (map Str ss) \<longrightarrow> field c k = Arr (map Str ss))
             \<and> (\<forall>s. field b k = Str s \<longrightarrow> field c k = Arr [Str s])"
    using stored_list field_absent by blast
  with c show "\<exists>c. snd (snd (createCandidate create rest ok oid b resume d candidates)) = candidates @ [(oid, c)]
         \<and> (\<forall>k\<in>{''skills'', ''certifications'', ''tools''}.
               castStrings (as_list (default_to (field b k) (Arr []))) = Inr (field c k)
             \<and> (map_of b k = None \<longrightarrow> field c k = Arr [])
             \<and> (\<forall>ss. field b k = Arr (map Str ss) \<longrightarrow> field c k = Arr (map Str ss))
             \<and> (\<forall>s. field b k = Str s \<longrightarrow> field c k = Arr [Str s]))"
    by blast
qed

theorem list_fields_as_lists_witness:
  "status (fst (createJob no_drive True 1762176600000 ''65f0c0ffee0123456789abcd''
       [(''certifications'', Str ''PMP''), (''tools'', Arr [Str ''git'', Str ''jira''])] (Some []) () [])) = 201
   \<and> status (fst (createCandidate no_drive not_numeric True ''65f0c0ffee0123456789abcd''
       [(''certifications'', Str ''PMP''), (''tools'', Arr [Str ''git'', Str ''jira''])] None () [])) = 201
   \<and> map_of [(''certifications'', Str ''PMP''), (''tools'', Arr [Str ''git'', Str ''jira''])] ''skills'' = None
   \<and> field [(''certifications'', Str ''PMP''), (''tools'', Arr [Str ''git'', Str ''jira''])] ''certifications''
        = Str ''PMP''
   \<and> field [(''certifications'', Str ''PMP''), (''tools'', Arr [Str ''git'', Str ''jira''])] ''tools''
        = Arr (map Str [''git'', ''jira''])
   \<and> (\<exists>job. snd (snd (createJob no_drive True 1762176600000 ''65f0c0ffee0123456789abcd''
         [(''certifications'', Str ''PMP''), (''tools'', Arr [Str ''git'', Str ''jira''])] (Some []) () []))
           = [(''65f0c0ffee0123456789abcd'', job)]
        \<and> field job ''certifications'' = Arr [Str ''PMP'']
        \<and> field job ''tools'' = Arr [Str ''git'', Str ''jira''])
   \<and> (\<exists>c. snd (snd (createCandidate no_drive not_numeric True ''65f0c0ffee0123456789abcd''
         [(''certifications'', Str ''PMP''), (''tools'', Arr [Str ''git'', Str ''jira''])] None () []))
           = [(''65f0c0ffee0123456789abcd'', c)]
        \<and> field c ''skills'' = Arr []
        \<and> field c ''certifications'' = Arr [Str ''PMP'']
        \<and> field c ''tools'' = Arr [Str ''git'', Str ''jira''])"
  using list_fields_as_lists
    [of no_drive True 1762176600000 "''65f0c0ffee0123456789abcd''"
        "[(''certifications'', Str ''PMP''), (''tools'', Arr [Str ''git'', Str ''jira''])]"
        "Some []" "()" "[]" not_numeric None "[]"]
  by (simp add: run_simps)

text \<open>
  Claim C2 as stated, refuted: a candidate with the number 5 as \<open>skills\<close> and the
  list of the numbers 1 and 2 as \<open>tools\<close> is created (201). The stored \<open>skills\<close> is
  the list of the string \<open>"5"\<close>, not of the number, and the stored \<open>tools\<close> is not
  the submitted list.
\<close>

theorem list_fields_number_counterexample:
  "createCandidate no_drive not_numeric True ''65f0c0ffee0123456789abcd''
       [(''skills'', Num 5), (''tools'', Arr [Num 1, Num 2])] None () [] =
     (\<lparr>status = 201,
       json = Obj [(''message'', Str ''Candidate applied successfully!''), (''resumeLink'', Null)]\<rparr>,
      (),
      [(''65f0c0ffee0123456789abcd'',
        [(''skills'', Arr [Str ''5'']), (''certifications'', Arr []),
         (''tools'', Arr [Str ''1'', Str ''2'']), (''resumeLink'', Null)])])
   \<and> Arr [Str ''5''] \<noteq> Arr [field [(''skills'', Num 5), (''tools'', Arr [Num 1, Num 2])] ''skills'']
   \<and> Arr [Str ''1'', Str ''2''] \<noteq> field [(''skills'', Num 5), (''tools'', Arr [Num 1, Num 2])] ''tools''"
  by (simp add: run_simps number_str_def decimal.simps digit_def)










section \<open>Properties of the date functions\<close>

lemma div_succ_int:
  fixes x k :: int
  assumes "0 < k"
  shows "(x + 1) div k = x div k + (if (x + 1) mod k = 0 then 1 else 0)"
proof -
  define q where "q = x div k"
  define r where "r = x mod k"
  have x: "x = k * q + r"
    by (simp add: q_def r_def)
  have r: "0 \<le> r" "r < k"
    using assms by (simp_all add: r_def)
  show ?thesis
  proof (cases "r + 1 = k")
    case True
    then have "x + 1 = k * (q + 1)"
      using x by (simp add: algebra_simps)
    then have "(x + 1) div k = q + 1" "(x + 1) mod k = 0"
      using assms by simp_all
    then show ?thesis
      by (simp add: q_def)
  next
    case False
    with r have r1: "0 \<le> r + 1" "r + 1 < k"
      by simp_all
    have "x + 1 = (r + 1) + k * q"
      using x by simp
    then have "(x + 1) div k = q" "(x + 1) mod k = r + 1"
      using assms r1 by (simp_all only: div_mult_self2 mod_mult_self2 div_pos_pos_trivial mod_pos_pos_trivial)
    then show ?thesis
      using r by (simp add: q_def)
  qed
qed


lemma mod_4_shift: "(y - 1968) mod 4 = y mod (4::int)"
  using mod_mult_self2 [of y 4 "- 492"] by simp

lemma mod_100_shift: "(y - 1900) mod 100 = y mod (100::int)"
  using mod_mult_self2 [of y 100 "- 19"] by simp

lemma mod_400_shift: "(y - 1600) mod 400 = y mod (400::int)"
  using mod_mult_self2 [of y 400 "- 4"] by simp

lemma mod_100_4: "y mod 100 = 0 \<Longrightarrow> y mod 4 = (0::int)"
  using mod_mod_cancel [of 4 100 y] by simp

lemma mod_400_100: "y mod 400 = 0 \<Longrightarrow> y mod 100 = (0::int)"
  using mod_mod_cancel [of 100 400 y] by simp

lemma DayFromYear_succ: "DayFromYear (y + 1) = DayFromYear y + DaysInYear y"
proof -
  have a: "(y + 1 - 1969) div 4 = (y - 1969) div 4 + (if y mod 4 = 0 then 1 else 0)"
    using div_succ_int [of 4 "y - 1969"] mod_4_shift [of y] by (simp add: algebra_simps)
  have b: "(y + 1 - 1901) div 100 = (y - 1901) div 100 + (if y mod 100 = 0 then 1 else 0)"
    using div_succ_int [of 100 "y - 1901"] mod_100_shift [of y] by (simp add: algebra_simps)
  have c: "(y + 1 - 1601) div 400 = (y - 1601) div 400 + (if y mod 400 = 0 then 1 else 0)"
    using div_succ_int [of 400 "y - 1601"] mod_400_shift [of y] by (simp add: algebra_simps)
  show ?thesis
    unfolding DayFromYear_def DaysInYear_def a b c
    using mod_100_4 [of y] mod_400_100 [of y]
    by (auto simp: algebra_simps)
qed

lemma DaysInYear_bounds: "365 \<le> DaysInYear y" "DaysInYear y \<le> 366"
  by (simp_all add: DaysInYear_def)

lemma DayFromYear_1970: "DayFromYear 1970 = 0"
  by (simp add: DayFromYear_def)

lemma DayFromYear_add: "DayFromYear y + 365 * int n \<le> DayFromYear (y + int n)"
proof (induction n)
  case 0
  then show ?case by simp
next
  case (Suc n)
  have "DayFromYear (y + int (Suc n)) = DayFromYear (y + int n) + DaysInYear (y + int n)"
    using DayFromYear_succ [of "y + int n"] by (simp add: algebra_simps)
  with Suc DaysInYear_bounds(1) [of "y + int n"] show ?case
    by (simp add: algebra_simps)
qed

lemma DayFromYear_mono:
  assumes "y \<le> z"
  shows "DayFromYear y \<le> DayFromYear z"
proof -
  from assms have z: "z = y + int (nat (z - y))"
    by simp
  have "DayFromYear y \<le> DayFromYear y + 365 * int (nat (z - y))"
    by simp
  also have "\<dots> \<le> DayFromYear (y + int (nat (z - y)))"
    by (rule DayFromYear_add)
  finally show ?thesis
    using z by simp
qed

lemma TimeFromYear_le_iff: "TimeFromYear y \<le> t \<longleftrightarrow> DayFromYear y \<le> Day t"
proof
  assume "TimeFromYear y \<le> t"
  then have "(msPerDay * DayFromYear y) div msPerDay \<le> t div msPerDay"
    unfolding TimeFromYear_def by (intro zdiv_mono1) (simp_all add: msPerDay_def)
  then show "DayFromYear y \<le> Day t"
    by (simp add: Day_def msPerDay_def)
next
  assume "DayFromYear y \<le> Day t"
  then have "msPerDay * DayFromYear y \<le> msPerDay * (t div msPerDay)"
    by (simp add: Day_def msPerDay_def)
  also have "\<dots> \<le> t"
    using mult_div_mod_eq [of msPerDay t] pos_mod_sign [of msPerDay t]
    by (simp add: msPerDay_def)
  finally show "TimeFromYear y \<le> t"
    by (simp add: TimeFromYear_def)
qed

lemma year_down_spec:
  "TimeFromYear (year_down t y0) \<le> t \<and> year_down t y0 \<le> y0
   \<and> (\<forall>y. year_down t y0 < y \<and> y \<le> y0 \<longrightarrow> t < TimeFromYear y)"
proof (induction t y0 rule: year_down.induct)
  case (1 t y0)
  show ?case
  proof (cases "TimeFromYear y0 \<le> t")
    case True
    then show ?thesis
      by (subst (1 2 3) year_down.simps) simp
  next
    case False
    have eq: "year_down t y0 = year_down t (y0 - 1)"
      using False by (subst year_down.simps) simp
    from "1.IH" [OF False] have ih:
      "TimeFromYear (year_down t (y0 - 1)) \<le> t" "year_down t (y0 - 1) \<le> y0 - 1"
      "\<forall>y. year_down t (y0 - 1) < y \<and> y \<le> y0 - 1 \<longrightarrow> t < TimeFromYear y"
      by blast+
    have "t < TimeFromYear y" if "year_down t (y0 - 1) < y" "y \<le> y0" for y
    proof (cases "y = y0")
      case True
      with False show ?thesis by simp
    next
      case False
      with that have "y \<le> y0 - 1" by simp
      with ih(3) that(1) show ?thesis by blast
    qed
    with ih(1,2) show ?thesis
      unfolding eq by auto
  qed
qed

lemma Day_below_start: "Day t < DayFromYear (1970 + max 0 (Day t div 365) + 1)"
proof (cases "Day t < 0")
  case True
  then have "Day t div 365 < 0"
    by (simp add: div_neg_pos_less0)
  then have "max 0 (Day t div 365) = 0"
    by simp
  with True show ?thesis
    by (simp add: DayFromYear_def)
next
  case False
  then have nn: "0 \<le> Day t div 365"
    by (simp add: pos_imp_zdiv_nonneg_iff)
  define n where "n = nat (Day t div 365)"
  have n: "int n = Day t div 365"
    using nn by (simp add: n_def)
  have "Day t = 365 * (Day t div 365) + Day t mod 365"
    by simp
  moreover have "Day t mod 365 < 365"
    by simp
  ultimately have "Day t < 365 * int (Suc n)"
    using n by simp
  also have "\<dots> \<le> DayFromYear (1970 + int (Suc n))"
    using DayFromYear_add [of 1970 "Suc n"] by (simp add: DayFromYear_1970)
  finally show ?thesis
    using nn n by (simp add: max_def algebra_simps)
qed

lemma YearFromTime_spec:
  "DayFromYear (YearFromTime t) \<le> Day t \<and> Day t < DayFromYear (YearFromTime t + 1)"
proof -
  define y0 where "y0 = 1970 + max 0 (Day t div 365)"
  have y: "YearFromTime t = year_down t y0"
    by (simp add: YearFromTime_def y0_def)
  from year_down_spec [of t y0] have s:
    "TimeFromYear (year_down t y0) \<le> t" "year_down t y0 \<le> y0"
    "\<forall>y. year_down t y0 < y \<and> y \<le> y0 \<longrightarrow> t < TimeFromYear y"
    by blast+
  have top: "\<not> TimeFromYear (y0 + 1) \<le> t"
    using Day_below_start [of t] by (simp add: TimeFromYear_le_iff y0_def)
  have "\<not> TimeFromYear (year_down t y0 + 1) \<le> t"
  proof (cases "year_down t y0 = y0")
    case True
    with top show ?thesis by simp
  next
    case False
    with s(2) have "year_down t y0 + 1 \<le> y0" by simp
    with s(3) show ?thesis by force
  qed
  with s(1) show ?thesis
    by (simp add: TimeFromYear_le_iff y)
qed

text \<open>So \<open>YearFromTime\<close> is the largest year that starts at or before \<open>t\<close>.\<close>

lemma YearFromTime_largest:
  assumes "TimeFromYear z \<le> t"
  shows "z \<le> YearFromTime t"
proof (rule ccontr)
  assume "\<not> z \<le> YearFromTime t"
  then have "YearFromTime t + 1 \<le> z"
    by simp
  from DayFromYear_mono [OF this] YearFromTime_spec [of t] have "Day t < DayFromYear z"
    by simp
  with assms show False
    by (simp add: TimeFromYear_le_iff)
qed

lemma DaysInYear_int: "DaysInYear (int y) = int (year_length y)"
proof -
  have "int y mod 4 = 0 \<longleftrightarrow> y mod 4 = 0" "int y mod 100 = 0 \<longleftrightarrow> y mod 100 = 0"
    "int y mod 400 = 0 \<longleftrightarrow> y mod 400 = 0"
    by presburger+
  then show ?thesis
    using mod_100_4 [of "int y"] mod_400_100 [of "int y"]
    by (auto simp: DaysInYear_def year_length_def leap_year_def)
qed

lemma DayFromYear_int:
  assumes "1970 \<le> y"
  shows "DayFromYear (int y) = int (\<Sum>k = 1970..<y. year_length k)"
  using assms
proof (induction y rule: dec_induct)
  case base
  then show ?case by (simp add: DayFromYear_1970)
next
  case (step n)
  have "DayFromYear (int (Suc n)) = DayFromYear (int n) + DaysInYear (int n)"
    using DayFromYear_succ [of "int n"] by (simp add: algebra_simps)
  with step show ?case
    by (simp add: DaysInYear_int)
qed

lemma YearFromTime_range:
  assumes "0 \<le> t" and "t < 253402300800000"
  shows "1970 \<le> YearFromTime t \<and> YearFromTime t \<le> 9999"
proof -
  from YearFromTime_spec [of t] have s:
    "DayFromYear (YearFromTime t) \<le> Day t" "Day t < DayFromYear (YearFromTime t + 1)"
    by simp_all
  have d0: "0 \<le> Day t"
    using assms(1) by (simp add: Day_def msPerDay_def pos_imp_zdiv_nonneg_iff)
  have "Day t < 2932897"
  proof -
    have "t div 86400000 \<le> 253402300799999 div 86400000"
      using assms(2) by (intro zdiv_mono1) simp_all
    then show ?thesis by (simp add: Day_def msPerDay_def)
  qed
  then have d1: "Day t < DayFromYear 10000"
    by (simp add: DayFromYear_def)
  have "1970 \<le> YearFromTime t"
  proof (rule ccontr)
    assume "\<not> 1970 \<le> YearFromTime t"
    then have "YearFromTime t + 1 \<le> 1970" by simp
    from DayFromYear_mono [OF this] have "DayFromYear (YearFromTime t + 1) \<le> 0"
      by (simp add: DayFromYear_1970)
    with s(2) d0 show False by simp
  qed
  moreover have "YearFromTime t \<le> 9999"
  proof (rule ccontr)
    assume "\<not> YearFromTime t \<le> 9999"
    then have "10000 \<le> YearFromTime t" by simp
    from DayFromYear_mono [OF this] s(1) d1 show False by simp
  qed
  ultimately show ?thesis ..
qed

lemma DayWithinYear_range:
  "0 \<le> DayWithinYear t \<and> DayWithinYear t < DaysInYear (YearFromTime t)"
  using YearFromTime_spec [of t] DayFromYear_succ [of "YearFromTime t"]
  by (simp add: DayWithinYear_def)

lemma day_ranges:
  fixes d l :: int
  assumes "0 \<le> d" and "d < 365 + l"
  shows "d < 31 \<or> (31 \<le> d \<and> d < 59 + l) \<or> (59 + l \<le> d \<and> d < 90 + l) \<or> (90 + l \<le> d \<and> d < 120 + l)
     \<or> (120 + l \<le> d \<and> d < 151 + l) \<or> (151 + l \<le> d \<and> d < 181 + l) \<or> (181 + l \<le> d \<and> d < 212 + l)
     \<or> (212 + l \<le> d \<and> d < 243 + l) \<or> (243 + l \<le> d \<and> d < 273 + l) \<or> (273 + l \<le> d \<and> d < 304 + l)
     \<or> (304 + l \<le> d \<and> d < 334 + l) \<or> (334 + l \<le> d \<and> d < 365 + l)"
  using assms by (simp add: not_less [symmetric]) blast


lemma month_table:
  fixes d l :: int
  assumes "0 \<le> d" and "d < 365 + l" and "l = 0 \<or> l = 1"
  defines "m \<equiv> (if d < 31 then 0
         else if d < 59 + l then 1
         else if d < 90 + l then 2
         else if d < 120 + l then 3
         else if d < 151 + l then 4
         else if d < 181 + l then 5
         else if d < 212 + l then 6
         else if d < 243 + l then 7
         else if d < 273 + l then 8
         else if d < 304 + l then 9
         else if d < 334 + l then 10
         else (11::int))"
  defines "dd \<equiv> (if m = 0 then d + 1
         else if m = 1 then d - 30
         else if m = 2 then d - 58 - l
         else if m = 3 then d - 89 - l
         else if m = 4 then d - 119 - l
         else if m = 5 then d - 150 - l
         else if m = 6 then d - 180 - l
         else if m = 7 then d - 211 - l
         else if m = 8 then d - 242 - l
         else if m = 9 then d - 272 - l
         else if m = 10 then d - 303 - l
         else d - 333 - l)"
  defines "lens \<equiv> [31, 28 + l, 31, 30, 31, 30, 31, 31, 30, 31, 30, 31]"
  shows "0 \<le> m \<and> m \<le> 11 \<and> 1 \<le> dd \<and> dd \<le> lens ! nat m \<and> dd \<le> 31
         \<and> sum_list (take (nat m) lens) + dd - 1 = d"
proof -
  consider "d < 31" | "31 \<le> d \<and> d < 59 + l" | "59 + l \<le> d \<and> d < 90 + l" | "90 + l \<le> d \<and> d < 120 + l" |
    "120 + l \<le> d \<and> d < 151 + l" | "151 + l \<le> d \<and> d < 181 + l" | "181 + l \<le> d \<and> d < 212 + l" | "212 + l \<le> d \<and> d < 243 + l" |
    "243 + l \<le> d \<and> d < 273 + l" | "273 + l \<le> d \<and> d < 304 + l" | "304 + l \<le> d \<and> d < 334 + l" | "334 + l \<le> d \<and> d < 365 + l"
    using day_ranges [OF assms(1,2)] by blast
  then show ?thesis
  proof cases
    case 1
    with assms(1,3) show ?thesis
      unfolding m_def dd_def lens_def by (elim disjE conjE; simp)
  next
    case 2
    with assms(3) show ?thesis
      unfolding m_def dd_def lens_def by (elim disjE conjE; simp)
  next
    case 3
    with assms(3) show ?thesis
      unfolding m_def dd_def lens_def by (elim disjE conjE; simp)
  next
    case 4
    with assms(3) show ?thesis
      unfolding m_def dd_def lens_def by (elim disjE conjE; simp)
  next
    case 5
    with assms(3) show ?thesis
      unfolding m_def dd_def lens_def by (elim disjE conjE; simp)
  next
    case 6
    with assms(3) show ?thesis
      unfolding m_def dd_def lens_def by (elim disjE conjE; simp)
  next
    case 7
    with assms(3) show ?thesis
      unfolding m_def dd_def lens_def by (elim disjE conjE; simp)
  next
    case 8
    with assms(3) show ?thesis
      unfolding m_def dd_def lens_def by (elim disjE conjE; simp)
  next
    case 9
    with assms(3) show ?thesis
      unfolding m_def dd_def lens_def by (elim disjE conjE; simp)
  next
    case 10
    with assms(3) show ?thesis
      unfolding m_def dd_def lens_def by (elim disjE conjE; simp)
  next
    case 11
    with assms(3) show ?thesis
      unfolding m_def dd_def lens_def by (elim disjE conjE; simp)
  next
    case 12
    with assms(3) show ?thesis
      unfolding m_def dd_def lens_def by (elim disjE conjE; simp)
  qed
qed

lemma below_10: "(k::nat) < 10 \<Longrightarrow> k \<in> {0,1,2,3,4,5,6,7,8,9}"
  by (simp add: numeral_eq_Suc less_Suc_eq)

lemma digit_is_digit: "k < 10 \<Longrightarrow> is_digit (digit k)"
  by (drule below_10) (auto simp: digit_def is_digit_def)

lemma digit_value: "k < 10 \<Longrightarrow> of_char (digit k) - (48::nat) = k"
  by (drule below_10) (auto simp: digit_def)

lemma digit_not_T: "is_digit c \<Longrightarrow> c \<noteq> CHR ''T''"
  by (auto simp: is_digit_def)

lemma digits_value_snoc:
  "digits_value (s @ [c]) = 10 * digits_value s + (of_char c - 48)"
  by (simp add: digits_value_def)

lemma decimal_digits: "list_all is_digit (decimal n)"
proof (induction n rule: decimal.induct)
  case (1 n)
  show ?case
  proof (cases "10 \<le> n")
    case True
    with 1 show ?thesis
      by (subst decimal.simps) (simp add: digit_is_digit)
  next
    case False
    then show ?thesis
      by (subst decimal.simps) (simp add: digit_is_digit)
  qed
qed

lemma decimal_value: "digits_value (decimal n) = n"
proof (induction n rule: decimal.induct)
  case (1 n)
  show ?case
  proof (cases "10 \<le> n")
    case True
    with 1 show ?thesis
      by (subst decimal.simps) (simp add: digits_value_snoc digit_value)
  next
    case False
    then show ?thesis
      by (subst decimal.simps) (simp add: digits_value_def digit_value)
  qed
qed

lemma decimal_length: "n < 10 ^ w \<Longrightarrow> 0 < w \<Longrightarrow> length (decimal n) \<le> w"
proof (induction n arbitrary: w rule: decimal.induct)
  case (1 n)
  show ?case
  proof (cases "10 \<le> n")
    case True
    with "1.prems" obtain v where w: "w = Suc v"
      by (cases w) auto
    with True "1.prems" have "0 < v"
      by (cases v) auto
    moreover from "1.prems" w have "n div 10 < 10 ^ v"
      by (simp add: less_mult_imp_div_less mult.commute)
    ultimately have "length (decimal (n div 10)) \<le> v"
      using "1.IH" True by blast
    with True w show ?thesis
      by (subst decimal.simps) simp
  next
    case False
    with "1.prems" show ?thesis
      by (subst decimal.simps) (cases w; simp)
  qed
qed

lemma digits_value_zeros: "digits_value (replicate k CHR ''0'' @ s) = digits_value s"
  by (induction k) (simp_all add: digits_value_def)

lemma pad_facts:
  assumes "0 \<le> i" and "nat i < 10 ^ w" and "0 < w"
  shows "length (pad w i) = w" and "list_all is_digit (pad w i)" and "digits_value (pad w i) = nat i"
proof -
  from decimal_length [OF assms(2,3)] show "length (pad w i) = w"
    by (simp add: pad_def Let_def)
  have "is_digit CHR ''0''"
    by (simp add: is_digit_def)
  then show "list_all is_digit (pad w i)"
    using decimal_digits [of "nat i"] by (auto simp: pad_def Let_def list_all_iff)
  show "digits_value (pad w i) = nat i"
    by (simp add: pad_def Let_def digits_value_zeros decimal_value)
qed

lemma split_chr_first:
  assumes "c \<notin> set p"
  shows "split_chr c (p @ c # rest) = p # split_chr c rest"
  using assms by (induction p) auto

lemma month_lengths_int:
  "map int (month_lengths y) =
     [31, 28 + (if DaysInYear (int y) = 366 then 1 else 0), 31, 30, 31, 30, 31, 31, 30, 31, 30, 31]"
  using DaysInYear_int [of y]
  by (simp add: month_lengths_def year_length_def split: if_splits)

lemma calendar_of_time:
  assumes "0 \<le> t" and "t < 253402300800000"
  defines "y \<equiv> nat (YearFromTime t)"
    and "m \<equiv> nat (MonthFromTime t + 1)"
    and "d \<equiv> nat (DateFromTime t)"
  shows "1970 \<le> y" and "y \<le> 9999" and "calendar_date y m d" and "d \<le> 31"
    and "int (days_since_epoch y m d) = Day t"
    and "int y = YearFromTime t" and "int m = MonthFromTime t + 1" and "int d = DateFromTime t"
    and "0 \<le> MonthFromTime t" and "1 \<le> DateFromTime t"
proof -
  from YearFromTime_range [OF assms(1,2)] have yr: "1970 \<le> YearFromTime t" "YearFromTime t \<le> 9999"
    by simp_all
  then show y: "int y = YearFromTime t" and "1970 \<le> y" and "y \<le> 9999"
    by (simp_all add: y_def)
  define l :: int where "l = (if DaysInYear (int y) = 366 then 1 else 0)"
  define lens where "lens = [31, 28 + l, 31, 30, 31, 30, 31, 31, 30, 31, 30, 31]"
  have l: "l = 0 \<or> l = 1" "InLeapYear t = l"
    by (simp_all add: l_def InLeapYear_def y)
  have "DaysInYear (int y) = 365 + l"
    by (simp add: l_def DaysInYear_def)
  with DayWithinYear_range [of t] have dw: "0 \<le> DayWithinYear t" "DayWithinYear t < 365 + l"
    by (simp_all add: y)
  from month_table [OF dw l(1)] have tab:
    "0 \<le> MonthFromTime t" "MonthFromTime t \<le> 11" "1 \<le> DateFromTime t"
    "DateFromTime t \<le> lens ! nat (MonthFromTime t)" "DateFromTime t \<le> 31"
    "sum_list (take (nat (MonthFromTime t)) lens) + DateFromTime t - 1 = DayWithinYear t"
    unfolding MonthFromTime_def DateFromTime_def Let_def l(2) lens_def by blast+
  from tab show m: "int m = MonthFromTime t + 1" and dd: "int d = DateFromTime t"
    by (simp_all add: m_def d_def)
  from tab show "d \<le> 31"
    by (simp add: d_def)
  from tab show "0 \<le> MonthFromTime t" and "1 \<le> DateFromTime t"
    by simp_all
  have lens_eq: "map int (month_lengths y) = lens"
    by (simp add: month_lengths_int lens_def l_def)
  have m1: "m - 1 = nat (MonthFromTime t)" "m - 1 < 12"
    using tab by (simp_all add: m_def)
  have "length (month_lengths y) = 12"
    by (simp add: month_lengths_def)
  with m1(2) have "map int (month_lengths y) ! (m - 1) = int (month_lengths y ! (m - 1))"
    by (intro nth_map) simp
  then have "int (month_lengths y ! (m - 1)) = lens ! (m - 1)"
    by (simp only: lens_eq)
  with tab(4) m1(1) dd have "d \<le> month_lengths y ! (m - 1)"
    by simp
  moreover have "1 \<le> m" "m \<le> 12" "1 \<le> d"
    using tab(1,2,3) m dd by linarith+
  ultimately show "calendar_date y m d"
    by (simp add: calendar_date_def)
  have "int (sum_list (take (m - 1) (month_lengths y))) = sum_list (take (m - 1) lens)"
    using sum_list_of_nat [of "take (m - 1) (month_lengths y)", where ?'a = int]
    by (simp add: lens_eq [symmetric] take_map)
  moreover have "int (\<Sum>k = 1970..<y. year_length k) = DayFromYear (YearFromTime t)"
    using DayFromYear_int [of y] \<open>1970 \<le> y\<close> y by simp
  moreover have "int (d - 1) = DateFromTime t - 1"
    using tab by (simp add: d_def)
  ultimately show "int (days_since_epoch y m d) = Day t"
    using tab(6) m1(1) by (simp add: days_since_epoch_def DayWithinYear_def)
qed

lemma dash_not_T: "CHR ''T'' \<notin> set ''-''"
  by simp

lemma digits_no_T: "list_all is_digit s \<Longrightarrow> CHR ''T'' \<notin> set s"
  by (auto simp: list_all_iff dest: digit_not_T)

lemma iso_date_string:
  assumes "0 \<le> t" and "t < 253402300800000"
  shows "at0 (split_chr CHR ''T'' (toISOString t)) =
     Str (pad 4 (YearFromTime t) @ ''-'' @ pad 2 (MonthFromTime t + 1) @ ''-''
          @ pad 2 (DateFromTime t))"
proof -
  note c = calendar_of_time [OF assms]
  let ?date = "pad 4 (YearFromTime t) @ ''-'' @ pad 2 (MonthFromTime t + 1) @ ''-''
          @ pad 2 (DateFromTime t)"
  have y: "0 \<le> YearFromTime t" "YearFromTime t \<le> 9999"
    using c(1,2,6) by linarith+
  then have iso: "isoYear (YearFromTime t) = pad 4 (YearFromTime t)"
    by (simp add: isoYear_def)
  have "nat (YearFromTime t) < 10 ^ 4"
    using y by simp
  from pad_facts(2) [OF y(1) this] have dy: "list_all is_digit (pad 4 (YearFromTime t))"
    by simp
  have m: "0 \<le> MonthFromTime t + 1" "nat (MonthFromTime t + 1) < 10 ^ 2"
    using c(3,9) by (simp_all add: calendar_date_def)
  from pad_facts(2) [OF m] have dm: "list_all is_digit (pad 2 (MonthFromTime t + 1))"
    by simp
  have d: "0 \<le> DateFromTime t" "nat (DateFromTime t) < 10 ^ 2"
    using c(4,10) by simp_all
  from pad_facts(2) [OF d] have dd: "list_all is_digit (pad 2 (DateFromTime t))"
    by simp
  have noT: "CHR ''T'' \<notin> set ?date"
    using digits_no_T [OF dy] digits_no_T [OF dm] digits_no_T [OF dd] by simp
  have "toISOString t = ?date @ CHR ''T'' #
      (pad 2 (HourFromTime t) @ '':'' @ pad 2 (MinFromTime t) @ '':'' @ pad 2 (SecFromTime t)
       @ ''.'' @ pad 3 (msFromTime t) @ ''Z'')"
    by (simp add: toISOString_def iso)
  then have "split_chr CHR ''T'' (toISOString t) = ?date # split_chr CHR ''T''
      (pad 2 (HourFromTime t) @ '':'' @ pad 2 (MinFromTime t) @ '':'' @ pad 2 (SecFromTime t)
       @ ''.'' @ pad 3 (msFromTime t) @ ''Z'')"
    using split_chr_first [OF noT] by simp
  then show ?thesis
    by (simp add: at0_def)
qed

text \<open>
  Claim C7. When \<^verbatim>\<open>POST /api/jobs\<close> is answered 201 at a clock \<open>now\<close> between the
  epoch and the end of the year 9999, the \<open>datePosted\<close> of the stored job is a
  string \<open>Y-M-D\<close> of four, two and two decimal digits, the numbers they write are
  the year, the month and the day of a date that exists, and that date is the one
  \<open>now div 86400000\<close> days after 1 January 1970: the calendar date, in UTC, at
  that moment.
\<close>

theorem createJob_datePosted:
  assumes "0 \<le> now" and "now < 253402300800000"
    and "status (fst (createJob create ok now oid b files d jobs)) = 201"
  shows "\<exists>job Y M D.
           snd (snd (createJob create ok now oid b files d jobs)) = jobs @ [(oid, job)]
         \<and> field job ''datePosted'' = Str (Y @ ''-'' @ M @ ''-'' @ D)
         \<and> length Y = 4 \<and> length M = 2 \<and> length D = 2
         \<and> list_all is_digit (Y @ M @ D)
         \<and> calendar_date (digits_value Y) (digits_value M) (digits_value D)
         \<and> int (days_since_epoch (digits_value Y) (digits_value M) (digits_value D))
               = now div 86400000"
proof -
  note c = calendar_of_time [OF assms(1,2)]
  let ?Y = "pad 4 (YearFromTime now)"
  let ?M = "pad 2 (MonthFromTime now + 1)"
  let ?D = "pad 2 (DateFromTime now)"
  have y: "0 \<le> YearFromTime now" "nat (YearFromTime now) < 10 ^ 4"
    using c(1,2,6) by simp_all
  have m: "0 \<le> MonthFromTime now + 1" "nat (MonthFromTime now + 1) < 10 ^ 2"
    using c(3,9) by (simp_all add: calendar_date_def)
  have dd: "0 \<le> DateFromTime now" "nat (DateFromTime now) < 10 ^ 2"
    using c(4,10) by simp_all
  note py = pad_facts [OF y] and pm = pad_facts [OF m] and pd = pad_facts [OF dd]
  from createJob_created [OF assms(3)] obtain job where
    job: "snd (snd (createJob create ok now oid b files d jobs)) = jobs @ [(oid, job)]"
    and dp: "field job ''datePosted'' = at0 (split_chr CHR ''T'' (toISOString now))"
    by auto
  have "field job ''datePosted'' = Str (?Y @ ''-'' @ ?M @ ''-'' @ ?D)"
    by (simp only: dp iso_date_string [OF assms(1,2)])
  moreover have "length ?Y = 4" "length ?M = 2" "length ?D = 2"
    using py(1) pm(1) pd(1) by simp_all
  moreover have "list_all is_digit (?Y @ ?M @ ?D)"
    using py(2) pm(2) pd(2) by simp
  moreover have "calendar_date (digits_value ?Y) (digits_value ?M) (digits_value ?D)"
    using c(3) by (simp only: py(3) pm(3) pd(3))
  moreover have "int (days_since_epoch (digits_value ?Y) (digits_value ?M) (digits_value ?D))
      = now div 86400000"
    using c(5) by (simp only: py(3) pm(3) pd(3) Day_def msPerDay_def)
  ultimately show ?thesis
    using job by blast
qed

lemma replicate_small: "replicate 1 x = [x]" "replicate 2 x = [x, x]" "replicate 3 x = [x, x, x]"
  by (simp_all add: numeral_2_eq_2 numeral_3_eq_3)

lemma iso_example: "toISOString 1762176600000 = ''2025-11-03T13:30:00.000Z''"
  by (simp add: toISOString_def isoYear_def YearFromTime_def year_down.simps Day_def msPerDay_def
        TimeFromYear_def DayFromYear_def MonthFromTime_def DateFromTime_def DayWithinYear_def
        InLeapYear_def DaysInYear_def HourFromTime_def MinFromTime_def SecFromTime_def
        msFromTime_def pad_def decimal.simps digit_def Let_def replicate_small)

theorem createJob_datePosted_witness:
  "(0::int) \<le> 1762176600000 \<and> (1762176600000::int) < 253402300800000
   \<and> status (fst (createJob no_drive True 1762176600000 ''65f0c0ffee0123456789abcd''
         [(''jobId'', Str ''J1'')] (Some []) () [])) = 201
   \<and> (\<exists>job. snd (snd (createJob no_drive True 1762176600000 ''65f0c0ffee0123456789abcd''
         [(''jobId'', Str ''J1'')] (Some []) () [])) = [(''65f0c0ffee0123456789abcd'', job)]
        \<and> field job ''datePosted'' = Str ''2025-11-03'')"
  using createJob_datePosted
    [of 1762176600000 no_drive True "''65f0c0ffee0123456789abcd''" "[(''jobId'', Str ''J1'')]"
        "Some []" "()" "[]"]
  by (simp add: run_simps iso_example at0_def)

end
